theory Spec2Isabelle
  imports
    Complex_Main
    "HOL-Library.AList"
    "HOL-Library.Char_ord"
    "HOL-Library.List_Lexorder"
begin

section \<open>Data model of \<open>optool.py\<close>\<close>

text \<open>
  A Python \<open>dict\<close> keeps its keys distinct and in insertion order, so it is an association
  list; \<^const>\<open>map_of\<close> reads it and \<^const>\<open>AList.update\<close> is \<open>d[k] = v\<close> (the value is
  replaced in place if the key is there, the pair is added at the end otherwise).
  Strings are \<^typ>\<open>string\<close>; \<open>len\<close> is \<^const>\<open>length\<close> and the comparison of two strings is
  the lexicographic order of their characters, as in Python.
\<close>

type_synonym ('k, 'v) dict = "('k \<times> 'v) list"

definition keys :: "('k, 'v) dict \<Rightarrow> 'k list" where
  "keys d = map fst d"

text \<open>\<open>d.get(k, dflt)\<close>.\<close>

definition dict_get :: "('k, 'v) dict \<Rightarrow> 'k \<Rightarrow> 'v \<Rightarrow> 'v" where
  "dict_get d k dflt = (case map_of d k of None \<Rightarrow> dflt | Some v \<Rightarrow> v)"

text \<open>The exceptions the program raises, each with its message.\<close>

datatype py_exception =
  ValueError string | KeyError string | OverflowError string | Exception string

text \<open>
  One entry of the spending mapping, the dict literal built in \<open>get_spending_data\<close>.
  \<open>org_id\<close> and \<open>org_name\<close> come from \<open>item.get(...)\<close> without a default, so they are
  \<open>None\<close> when the API object has no such field. The item count is an integer; quantity and
  cost are JSON numbers that the program only stores, so their type is left open.
\<close>

record 'n entry =
  org_id :: "string option"
  org_name :: "string option"
  items :: int
  quantity :: 'n
  actual_cost :: 'n

type_synonym 'n spending = "(string, 'n entry list) dict"

type_synonym ranking = "(string \<times> string option) list"

section \<open>The remote API\<close>

text \<open>
  Every function that talks to the API runs \<open>requests.get(url)\<close>,
  \<open>response.raise_for_status()\<close> and \<open>response.json()\<close> in a row. Either all three
  succeed and give the decoded body, or one of them raises a \<open>requests.RequestException\<close>
  (no connection, an HTTP error status, a body that is not JSON), whose text is kept. The
  API is a function from the URL to that outcome. A body is a list of objects, and a field
  of an object is absent (\<open>None\<close>) or holds a value of the type the API documents.
\<close>

datatype 'a fetched = RequestException string | Body 'a

text \<open>An object of the \<open>bnf_code\<close> endpoint, with its fields \<open>id\<close> and \<open>name\<close>.\<close>

record bnf_item =
  item_id :: "string option"
  item_name :: "string option"

text \<open>
  The objects of \<open>spending_by_org\<close> and of \<open>org_details\<close> both have a \<open>row_id\<close>; the
  fields \<open>date\<close>, \<open>items\<close>, \<open>quantity\<close> and \<open>actual_cost\<close> of the former are
  \<open>row_date\<close>, \<open>row_items\<close>, \<open>row_quantity\<close> and \<open>row_actual_cost\<close> here.
\<close>

record api_row =
  row_id :: "string option"

record 'n spending_item = api_row +
  row_date :: "string option"
  row_name :: "string option"
  row_items :: "int option"
  row_quantity :: "'n option"
  row_actual_cost :: "'n option"

record org_details_item = api_row +
  total_list_size :: "int option"

section \<open>Resolving the chemical code\<close>

text \<open>\<open>str(n)\<close> for a natural number: its decimal digits.\<close>

definition digit :: "nat \<Rightarrow> char" where
  "digit n = ''0123456789'' ! (n mod 10)"

function str_nat :: "nat \<Rightarrow> string" where
  "str_nat n = (if n < 10 then [digit n] else str_nat (n div 10) @ [digit n])"
  by pat_completeness auto
termination
  by (relation "measure (\<lambda>n. n)") auto

text \<open>Reading a decimal numeral back, to say what a message reports.\<close>

definition nat_of_digits :: "string \<Rightarrow> nat" where
  "nat_of_digits s = foldl (\<lambda>acc c. 10 * acc + (of_char c - 48)) 0 s"

definition check_url :: "string \<Rightarrow> string" where
  "check_url code =
     ''https://openprescribing.net/api/1.0/bnf_code/?format=json&exact=true&param='' @ code"

fun exists_loop :: "bnf_item list \<Rightarrow> string \<Rightarrow> bool" where
  "exists_loop [] code = False"
| "exists_loop (item # rest) code =
     (if item_id item = Some code then True else exists_loop rest code)"

text \<open>The bare \<open>except\<close> of \<open>check_code_exists\<close> turns every failure into \<open>False\<close>.\<close>

definition check_code_exists :: "(string \<Rightarrow> bnf_item list fetched) \<Rightarrow> string \<Rightarrow> bool" where
  "check_code_exists get code =
     (case get (check_url code) of
        RequestException e \<Rightarrow> False
      | Body data \<Rightarrow> exists_loop data code)"

text \<open>The loop \<open>for length in [9, 7]\<close>; \<open>Some\<close> is its \<open>return\<close>.\<close>

fun lengths_loop ::
  "(string \<Rightarrow> bnf_item list fetched) \<Rightarrow> string \<Rightarrow> nat list \<Rightarrow> string option" where
  "lengths_loop get bnf_code [] = None"
| "lengths_loop get bnf_code (len # rest) =
     (let chemical_code = take len bnf_code
      in if check_code_exists get chemical_code then Some chemical_code
         else lengths_loop get bnf_code rest)"

definition extract_chemical_code ::
  "(string \<Rightarrow> bnf_item list fetched) \<Rightarrow> string \<Rightarrow> py_exception + string" where
  "extract_chemical_code get bnf_code =
     (if length bnf_code \<noteq> 15
      then Inl (ValueError (''BNF code must be exactly 15 characters, got '' @
                            str_nat (length bnf_code)))
      else (case lengths_loop get bnf_code [9, 7] of
              Some chemical_code \<Rightarrow> Inr chemical_code
            | None \<Rightarrow> Inr (take 9 bnf_code)))"

section \<open>Looking the name up\<close>

definition name_url :: "string \<Rightarrow> string" where
  "name_url chemical_code =
     ''https://openprescribing.net/api/1.0/bnf_code/?format=json&exact=true&q='' @
     chemical_code"

fun name_loop :: "bnf_item list \<Rightarrow> string \<Rightarrow> py_exception + string" where
  "name_loop [] chemical_code =
     Inl (ValueError (''No exact match found for chemical code '' @ chemical_code))"
| "name_loop (item # rest) chemical_code =
     (if item_id item = Some chemical_code
      then Inr (case item_name item of None \<Rightarrow> ''Unknown chemical'' | Some n \<Rightarrow> n)
      else name_loop rest chemical_code)"

text \<open>
  The \<open>try\<close> block after the request has succeeded, and then the two handlers: a
  \<open>RequestException\<close> and a \<open>ValueError\<close> are each replaced by an \<open>Exception\<close>.
\<close>

definition name_of_body :: "bnf_item list \<Rightarrow> string \<Rightarrow> py_exception + string" where
  "name_of_body data chemical_code =
     (if data = []
      then Inl (ValueError (''No data found for chemical code '' @ chemical_code))
      else name_loop data chemical_code)"

definition get_chemical_name ::
  "(string \<Rightarrow> bnf_item list fetched) \<Rightarrow> string \<Rightarrow> py_exception + string" where
  "get_chemical_name get chemical_code =
     (case get (name_url chemical_code) of
        RequestException e \<Rightarrow> Inl (Exception (''Failed to fetch data from API: '' @ e))
      | Body data \<Rightarrow>
          (case name_of_body data chemical_code of
             Inl (ValueError e) \<Rightarrow> Inl (Exception (''Failed to parse API response: '' @ e))
           | Inl other \<Rightarrow> Inl other
           | Inr name \<Rightarrow> Inr name))"

section \<open>Collecting the spending data\<close>

definition spending_url :: "string \<Rightarrow> string" where
  "spending_url chemical_code =
     ''https://openprescribing.net/api/1.0/spending_by_org/?format=json&org_type=icb&code='' @
     chemical_code"

text \<open>The dict literal appended for one API object.\<close>

definition entry_of :: "'n::zero spending_item \<Rightarrow> 'n entry" where
  "entry_of item =
     \<lparr>org_id = row_id item,
      org_name = row_name item,
      items = (case row_items item of None \<Rightarrow> 0 | Some n \<Rightarrow> n),
      quantity = (case row_quantity item of None \<Rightarrow> 0 | Some q \<Rightarrow> q),
      actual_cost = (case row_actual_cost item of None \<Rightarrow> 0 | Some c \<Rightarrow> c)\<rparr>"

text \<open>
  \<open>spending_by_date[date].append(e)\<close> on a \<open>defaultdict(list)\<close>: a missing date is added
  at the end with an empty list first.
\<close>

definition dict_append :: "('k, 'v list) dict \<Rightarrow> 'k \<Rightarrow> 'v \<Rightarrow> ('k, 'v list) dict" where
  "dict_append d k v = AList.update k (dict_get d k [] @ [v]) d"

text \<open>\<open>if date:\<close> is false for an absent date and for the empty string.\<close>

fun group_loop :: "'n::zero spending_item list \<Rightarrow> 'n spending \<Rightarrow> 'n spending" where
  "group_loop [] spending_by_date = spending_by_date"
| "group_loop (item # rest) spending_by_date =
     (case row_date item of
        None \<Rightarrow> group_loop rest spending_by_date
      | Some d \<Rightarrow>
          if d = [] then group_loop rest spending_by_date
          else group_loop rest (dict_append spending_by_date d (entry_of item)))"

definition get_spending_data ::
  "(string \<Rightarrow> 'n::zero spending_item list fetched) \<Rightarrow> string \<Rightarrow> py_exception + 'n spending" where
  "get_spending_data get chemical_code =
     (case get (spending_url chemical_code) of
        RequestException e \<Rightarrow>
          Inl (Exception (''Failed to fetch spending data from API: '' @ e))
      | Body data \<Rightarrow> Inr (group_loop data []))"

section \<open>Ranking by raw item count\<close>

text \<open>
  Python's \<open>max(xs, key=f)\<close>: the first element is the candidate, a later element replaces
  it only when its key is strictly greater; an empty argument raises \<open>ValueError\<close>.
\<close>

fun max_loop :: "('a \<Rightarrow> 'k::linorder) \<Rightarrow> 'a \<Rightarrow> 'a list \<Rightarrow> 'a" where
  "max_loop key best [] = best"
| "max_loop key best (x # xs) = max_loop key (if key best < key x then x else best) xs"

definition py_max :: "('a \<Rightarrow> 'k::linorder) \<Rightarrow> 'a list \<Rightarrow> py_exception + 'a" where
  "py_max key xs =
     (case xs of
        [] \<Rightarrow> Inl (ValueError ''max() arg is an empty sequence'')
      | x # rest \<Rightarrow> Inr (max_loop key x rest))"

text \<open>
  The body of \<open>find_top_prescriber_by_month\<close>: the loop over the sorted dates, with
  \<open>results\<close> as the accumulator.
\<close>

fun top_loop :: "'n spending \<Rightarrow> string list \<Rightarrow> ranking \<Rightarrow> py_exception + ranking" where
  "top_loop spending_data [] results = Inr results"
| "top_loop spending_data (date # dates) results =
     (case map_of spending_data date of
        None \<Rightarrow> Inl (KeyError date)
      | Some icb_data \<Rightarrow>
          if icb_data = [] then top_loop spending_data dates results
          else (case py_max items icb_data of
                  Inl e \<Rightarrow> Inl e
                | Inr top_icb \<Rightarrow>
                    top_loop spending_data dates (results @ [(date, org_name top_icb)])))"

definition find_top_prescriber_by_month :: "'n spending \<Rightarrow> py_exception + ranking" where
  "find_top_prescriber_by_month spending_data =
     top_loop spending_data (sort (keys spending_data)) []"

text \<open>The first element, in list order, whose key is the greatest key of the list.\<close>

definition first_max :: "('a \<Rightarrow> 'k::linorder) \<Rightarrow> 'a list \<Rightarrow> 'a option" where
  "first_max key xs = find (\<lambda>x. key x = Max (set (map key xs))) xs"

text \<open>What one date contributes to the unweighted ranking.\<close>

definition top_row :: "'n spending \<Rightarrow> string \<Rightarrow> ranking" where
  "top_row spending_data date =
     (case map_of spending_data date of
        None \<Rightarrow> []
      | Some icb_data \<Rightarrow>
          (case icb_data of [] \<Rightarrow> [] | x # rest \<Rightarrow> [(date, org_name (max_loop items x rest))]))"

section \<open>Ranking by items per patient\<close>

text \<open>
  The population mapping \<open>list_sizes\<close> is a dict of dicts, date to organization id to list
  size. The rate is \<open>items / list_size\<close>, Python's true division of two integers: it gives
  a float, or it raises \<open>OverflowError\<close> when the quotient is too large for a float. The
  division is the parameter \<open>truediv\<close>, into any linearly ordered type, with \<open>None\<close> for
  the overflow; nothing below depends on how the quotient is rounded, nor on which
  quotients are too large. A member of \<open>icb_rates\<close>, the dict literal with the keys
  \<open>org_name\<close> and \<open>rate\<close>, is the pair of the two values.
\<close>

type_synonym list_sizes = "(string, (string option, int) dict) dict"

fun rates_loop ::
  "(int \<Rightarrow> int \<Rightarrow> 'r option) \<Rightarrow> list_sizes \<Rightarrow> string \<Rightarrow> 'n entry list \<Rightarrow>
   (string option \<times> 'r) list \<Rightarrow> py_exception + (string option \<times> 'r) list" where
  "rates_loop truediv list_sizes date [] icb_rates = Inr icb_rates"
| "rates_loop truediv list_sizes date (icb # rest) icb_rates =
     (let list_size = dict_get (dict_get list_sizes date []) (org_id icb) 0
      in if list_size > 0
         then (case truediv (items icb) list_size of
                 None \<Rightarrow>
                   Inl (OverflowError ''integer division result too large for a float'')
               | Some rate \<Rightarrow>
                   rates_loop truediv list_sizes date rest
                     (icb_rates @ [(org_name icb, rate)]))
         else rates_loop truediv list_sizes date rest icb_rates)"

fun weighted_loop ::
  "(int \<Rightarrow> int \<Rightarrow> 'r::linorder option) \<Rightarrow> 'n spending \<Rightarrow> list_sizes \<Rightarrow> string list \<Rightarrow>
   ranking \<Rightarrow> py_exception + ranking" where
  "weighted_loop truediv spending_data list_sizes [] results = Inr results"
| "weighted_loop truediv spending_data list_sizes (date # dates) results =
     (case map_of spending_data date of
        None \<Rightarrow> Inl (KeyError date)
      | Some icb_data \<Rightarrow>
          if icb_data = [] then weighted_loop truediv spending_data list_sizes dates results
          else
            (case rates_loop truediv list_sizes date icb_data [] of
               Inl e \<Rightarrow> Inl e
             | Inr icb_rates \<Rightarrow>
                 if icb_rates \<noteq> []
                 then (case py_max snd icb_rates of
                         Inl e \<Rightarrow> Inl e
                       | Inr top_icb \<Rightarrow>
                           weighted_loop truediv spending_data list_sizes dates
                             (results @ [(date, fst top_icb)]))
                 else weighted_loop truediv spending_data list_sizes dates results))"

definition find_top_prescriber_by_month_weighted ::
  "(int \<Rightarrow> int \<Rightarrow> 'r::linorder option) \<Rightarrow> 'n spending \<Rightarrow> list_sizes \<Rightarrow>
   py_exception + ranking" where
  "find_top_prescriber_by_month_weighted truediv spending_data list_sizes =
     weighted_loop truediv spending_data list_sizes (sort (keys spending_data)) []"

text \<open>
  The population of an organization on a date as the specification speaks of it: known
  (\<open>Some\<close>) or unknown (\<open>None\<close>). An entry has a rate when the population of its
  organization is known and strictly positive; the rate is then the quotient of its items
  by that population, \<open>None\<close> when the division overflows.
\<close>

definition population :: "list_sizes \<Rightarrow> string \<Rightarrow> string option \<Rightarrow> int option" where
  "population list_sizes date org =
     (case map_of list_sizes date of None \<Rightarrow> None | Some sizes \<Rightarrow> map_of sizes org)"

definition has_rate :: "list_sizes \<Rightarrow> string \<Rightarrow> 'n entry \<Rightarrow> bool" where
  "has_rate list_sizes date icb =
     (case population list_sizes date (org_id icb) of None \<Rightarrow> False | Some p \<Rightarrow> 0 < p)"

definition rate_of ::
  "(int \<Rightarrow> int \<Rightarrow> 'r option) \<Rightarrow> list_sizes \<Rightarrow> string \<Rightarrow> 'n entry \<Rightarrow> 'r option" where
  "rate_of truediv list_sizes date icb =
     (case population list_sizes date (org_id icb) of
        None \<Rightarrow> None
      | Some p \<Rightarrow> truediv (items icb) p)"

text \<open>
  A date overflows when the division overflows for one of its entries that have a rate;
  the spending mapping overflows when one of its dates does.
\<close>

definition date_overflows ::
  "(int \<Rightarrow> int \<Rightarrow> 'r option) \<Rightarrow> 'n spending \<Rightarrow> list_sizes \<Rightarrow> string \<Rightarrow> bool" where
  "date_overflows truediv spending_data list_sizes date =
     (\<exists>icb\<in>set (dict_get spending_data date []).
        has_rate list_sizes date icb \<and> rate_of truediv list_sizes date icb = None)"

definition overflows ::
  "(int \<Rightarrow> int \<Rightarrow> 'r option) \<Rightarrow> 'n spending \<Rightarrow> list_sizes \<Rightarrow> bool" where
  "overflows truediv spending_data list_sizes =
     (\<exists>date\<in>set (keys spending_data). date_overflows truediv spending_data list_sizes date)"

text \<open>
  The rates of the entries of a date that have one, and what the date contributes to the
  weighted ranking when none of its divisions overflows.
\<close>

definition rates_of ::
  "(int \<Rightarrow> int \<Rightarrow> 'r option) \<Rightarrow> list_sizes \<Rightarrow> string \<Rightarrow> 'n entry list \<Rightarrow>
   (string option \<times> 'r) list" where
  "rates_of truediv list_sizes date icb_data =
     concat (map (\<lambda>icb. case rate_of truediv list_sizes date icb of
                          None \<Rightarrow> []
                        | Some rate \<Rightarrow> [(org_name icb, rate)])
               (filter (has_rate list_sizes date) icb_data))"

definition weighted_row ::
  "(int \<Rightarrow> int \<Rightarrow> 'r::linorder option) \<Rightarrow> 'n spending \<Rightarrow> list_sizes \<Rightarrow> string \<Rightarrow> ranking" where
  "weighted_row truediv spending_data list_sizes date =
     (case map_of spending_data date of
        None \<Rightarrow> []
      | Some icb_data \<Rightarrow>
          (case rates_of truediv list_sizes date icb_data of
             [] \<Rightarrow> []
           | r # rest \<Rightarrow> [(date, fst (max_loop snd r rest))]))"

section \<open>Collecting the list sizes\<close>

text \<open>
  \<open>get_icb_list_sizes\<close> sends requests and prints warnings. Both are recorded: the URLs
  passed to \<open>requests.get\<close> and the lines printed to standard output and to standard
  error, each in order.
\<close>

record io_log =
  requested :: "string list"
  stdout :: "string list"
  stderr :: "string list"

definition list_size_url :: "string \<Rightarrow> string" where
  "list_size_url year_month =
     ''https://openprescribing.net/api/1.0/org_details/?format=json&org_type=icb&keys=total_list_size&date='' @
     year_month @ ''-01''"

text \<open>\<open>s.startswith(p)\<close>.\<close>

definition startswith :: "string \<Rightarrow> string \<Rightarrow> bool" where
  "startswith s p = (take (length p) s = p)"

text \<open>
  The set \<open>unique_months\<close> is the list of its members, each once; \<open>add\<close> leaves the set
  alone when the member is there. Python visits the members of a set in an order of its
  own, so the \<open>for\<close> loop over the set runs over \<open>order unique_months\<close>, where \<open>order\<close>
  is any function that rearranges a set.
\<close>

definition set_add :: "'a \<Rightarrow> 'a list \<Rightarrow> 'a list" where
  "set_add x members = (if x \<in> set members then members else members @ [x])"

definition iteration_order :: "('a list \<Rightarrow> 'a list) \<Rightarrow> bool" where
  "iteration_order order =
     (\<forall>members. distinct members \<longrightarrow>
        distinct (order members) \<and> set (order members) = set members)"

fun unique_months_loop :: "string list \<Rightarrow> string list \<Rightarrow> string list" where
  "unique_months_loop [] unique_months = unique_months"
| "unique_months_loop (date # dates) unique_months =
     (let year_month = take 7 date
      in unique_months_loop dates (set_add year_month unique_months))"

text \<open>
  \<open>list_sizes[date][org_id] = list_size\<close> on a \<open>defaultdict(dict)\<close>: a missing date is added
  with an empty dict first.
\<close>

definition store_size :: "list_sizes \<Rightarrow> string \<Rightarrow> string option \<Rightarrow> int \<Rightarrow> list_sizes" where
  "store_size list_sizes date org list_size =
     AList.update date (AList.update org list_size (dict_get list_sizes date [])) list_sizes"

fun dates_loop ::
  "string \<Rightarrow> string option \<Rightarrow> int \<Rightarrow> string list \<Rightarrow> list_sizes \<Rightarrow> list_sizes" where
  "dates_loop year_month org list_size [] list_sizes = list_sizes"
| "dates_loop year_month org list_size (date # dates) list_sizes =
     (if startswith date year_month
      then dates_loop year_month org list_size dates
             (store_size list_sizes date org list_size)
      else dates_loop year_month org list_size dates list_sizes)"

fun items_loop ::
  "string \<Rightarrow> string option set \<Rightarrow> string list \<Rightarrow> org_details_item list \<Rightarrow>
   list_sizes \<Rightarrow> list_sizes" where
  "items_loop year_month org_ids dates [] list_sizes = list_sizes"
| "items_loop year_month org_ids dates (item # rest) list_sizes =
     (let org = row_id item
      in if org \<in> org_ids
         then items_loop year_month org_ids dates rest
                (dates_loop year_month org
                   (case total_list_size item of None \<Rightarrow> 0 | Some n \<Rightarrow> n) dates list_sizes)
         else items_loop year_month org_ids dates rest list_sizes)"

text \<open>
  The loop over the months. A \<open>RequestException\<close> is caught: the warning goes to standard
  error and the loop continues with the next month.
\<close>

fun months_loop ::
  "(string \<Rightarrow> org_details_item list fetched) \<Rightarrow> string option set \<Rightarrow> string list \<Rightarrow>
   string list \<Rightarrow> list_sizes \<times> io_log \<Rightarrow> list_sizes \<times> io_log" where
  "months_loop get org_ids dates [] state = state"
| "months_loop get org_ids dates (year_month # rest) (list_sizes, io) =
     (let api_url = list_size_url year_month;
          io = io\<lparr>requested := requested io @ [api_url]\<rparr>
      in case get api_url of
           RequestException e \<Rightarrow>
             months_loop get org_ids dates rest
               (list_sizes,
                io\<lparr>stderr := stderr io @
                   [''Warning: Failed to fetch list sizes for '' @ year_month @ '': '' @ e]\<rparr>)
         | Body data \<Rightarrow>
             months_loop get org_ids dates rest
               (items_loop year_month org_ids dates data list_sizes, io))"

definition get_icb_list_sizes ::
  "(string list \<Rightarrow> string list) \<Rightarrow> (string \<Rightarrow> org_details_item list fetched) \<Rightarrow>
   string option set \<Rightarrow> string list \<Rightarrow> io_log \<Rightarrow> list_sizes \<times> io_log" where
  "get_icb_list_sizes order get org_ids dates io =
     months_loop get org_ids dates (order (unique_months_loop dates [])) ([], io)"

text \<open>
  The list size that a month's response gives for an organization: that of the last object
  of the response with the organization's id, 0 if the object has no \<open>total_list_size\<close>.
\<close>

definition recorded_size :: "org_details_item list \<Rightarrow> string option \<Rightarrow> int option" where
  "recorded_size data org =
     (case find (\<lambda>item. row_id item = org) (rev data) of
        None \<Rightarrow> None
      | Some item \<Rightarrow> Some (case total_list_size item of None \<Rightarrow> 0 | Some n \<Rightarrow> n))"

section \<open>Properties of the code resolver and the catalog lookup\<close>

declare str_nat.simps [simp del]

lemma of_char_digit: "of_char (digit n) = 48 + n mod 10"
proof -
  have "k < 10 \<Longrightarrow> (of_char (''0123456789'' ! k) :: nat) = 48 + k" for k
    by (auto simp: eval_nat_numeral less_Suc_eq)
  then show ?thesis by (simp add: digit_def)
qed

lemma nat_of_digits_snoc:
  "nat_of_digits (s @ [c]) = 10 * nat_of_digits s + (of_char c - 48)"
  by (simp add: nat_of_digits_def)

lemma nat_of_digits_str_nat: "nat_of_digits (str_nat n) = n"
proof (induction n rule: str_nat.induct)
  case (1 n)
  show ?case
  proof (cases "n < 10")
    case True
    then show ?thesis
      by (simp add: str_nat.simps [of n] nat_of_digits_def of_char_digit)
  next
    case False
    then have "nat_of_digits (str_nat (n div 10)) = n div 10" by (rule "1.IH")
    then show ?thesis
      using False by (simp add: str_nat.simps [of n] nat_of_digits_snoc of_char_digit)
  qed
qed

lemma exists_loop_iff: "exists_loop data code \<longleftrightarrow> (\<exists>item\<in>set data. item_id item = Some code)"
  by (induction data) auto

lemma name_loop_find:
  "name_loop data code =
     (case find (\<lambda>item. item_id item = Some code) data of
        None \<Rightarrow> Inl (ValueError (''No exact match found for chemical code '' @ code))
      | Some item \<Rightarrow> Inr (case item_name item of None \<Rightarrow> ''Unknown chemical'' | Some n \<Rightarrow> n))"
  by (induction data) simp_all

lemma get_chemical_name_request_failed:
  "get (name_url code) = RequestException m \<Longrightarrow>
   get_chemical_name get code = Inl (Exception (''Failed to fetch data from API: '' @ m))"
  by (simp add: get_chemical_name_def)

lemma get_chemical_name_empty:
  "get (name_url code) = Body [] \<Longrightarrow>
   get_chemical_name get code =
     Inl (Exception (''Failed to parse API response: '' @
                     ''No data found for chemical code '' @ code))"
  by (simp add: get_chemical_name_def name_of_body_def)

lemma get_chemical_name_no_match:
  "get (name_url code) = Body data \<Longrightarrow> data \<noteq> [] \<Longrightarrow>
   find (\<lambda>item. item_id item = Some code) data = None \<Longrightarrow>
   get_chemical_name get code =
     Inl (Exception (''Failed to parse API response: '' @
                     ''No exact match found for chemical code '' @ code))"
  by (simp add: get_chemical_name_def name_of_body_def name_loop_find)

lemma get_chemical_name_match:
  "get (name_url code) = Body data \<Longrightarrow>
   find (\<lambda>item. item_id item = Some code) data = Some item \<Longrightarrow>
   get_chemical_name get code =
     Inr (case item_name item of None \<Rightarrow> ''Unknown chemical'' | Some n \<Rightarrow> n)"
proof -
  assume body: "get (name_url code) = Body data"
    and found: "find (\<lambda>item. item_id item = Some code) data = Some item"
  from found have "data \<noteq> []" by auto
  with body found show ?thesis
    by (simp add: get_chemical_name_def name_of_body_def name_loop_find)
qed

section \<open>Properties of the spending collector\<close>

lemma map_of_dict_append:
  "map_of (dict_append d k v) k' =
     (if k' = k then Some (dict_get d k [] @ [v]) else map_of d k')"
  by (simp add: dict_append_def update_conv')

lemma dict_get_dict_append:
  "dict_get (dict_append d k v) k' [] =
     (if k' = k then dict_get d k [] @ [v] else dict_get d k' [])"
  by (simp add: dict_get_def map_of_dict_append)

lemma distinct_dict_append:
  "distinct (keys d) \<Longrightarrow> distinct (keys (dict_append d k v))"
  by (simp add: keys_def dict_append_def distinct_update)

lemma distinct_group_loop:
  "distinct (keys acc) \<Longrightarrow> distinct (keys (group_loop data acc))"
  by (induction data arbitrary: acc) (simp_all add: distinct_dict_append split: option.split)

lemma map_of_group_loop:
  "map_of (group_loop data acc) d =
     (if d = [] \<or> filter (\<lambda>item. row_date item = Some d) data = [] then map_of acc d
      else Some (dict_get acc d [] @
                 map entry_of (filter (\<lambda>item. row_date item = Some d) data)))"
proof (induction data arbitrary: acc)
  case Nil
  show ?case by simp
next
  case (Cons item rest)
  show ?case
  proof (cases "row_date item")
    case None
    then show ?thesis by (simp add: Cons.IH)
  next
    case (Some d')
    show ?thesis
    proof (cases "d' = []")
      case True
      with Some show ?thesis by (auto simp: Cons.IH)
    next
      case False
      with Some show ?thesis
        by (simp add: Cons.IH map_of_dict_append dict_get_dict_append)
    qed
  qed
qed

section \<open>Properties of the list size collector\<close>

lemma unique_months_loop_members:
  "distinct unique_months \<Longrightarrow>
   distinct (unique_months_loop dates unique_months) \<and>
   set (unique_months_loop dates unique_months) = set unique_months \<union> take 7 ` set dates"
  by (induction dates arbitrary: unique_months) (auto simp: set_add_def Let_def)

lemma list_size_url_inj: "list_size_url a = list_size_url b \<longleftrightarrow> a = b"
  by (simp add: list_size_url_def)

lemma months_loop_requested:
  "requested (snd (months_loop get org_ids dates months (list_sizes, io))) =
     requested io @ map list_size_url months"
  by (induction months arbitrary: list_sizes io) (simp_all add: Let_def split: fetched.split)

lemma months_loop_stdout:
  "stdout (snd (months_loop get org_ids dates months (list_sizes, io))) = stdout io"
  by (induction months arbitrary: list_sizes io) (simp_all add: Let_def split: fetched.split)

lemma months_loop_stderr:
  "stderr (snd (months_loop get org_ids dates months (list_sizes, io))) =
     stderr io @
     concat (map (\<lambda>year_month.
        case get (list_size_url year_month) of
          RequestException e \<Rightarrow>
            [''Warning: Failed to fetch list sizes for '' @ year_month @ '': '' @ e]
        | Body data \<Rightarrow> []) months)"
  by (induction months arbitrary: list_sizes io) (simp_all add: Let_def split: fetched.split)

lemma population_store_size:
  "population (store_size list_sizes date org list_size) d org' =
     (if d = date \<and> org' = org then Some list_size else population list_sizes d org')"
  by (simp add: population_def store_size_def update_conv' dict_get_def split: option.split)

lemma map_of_store_size_None:
  "map_of (store_size list_sizes date org list_size) d = None \<longleftrightarrow>
     d \<noteq> date \<and> map_of list_sizes d = None"
  by (simp add: store_size_def update_conv')

lemma population_dates_loop:
  "population (dates_loop year_month org list_size dates list_sizes) d org' =
     (if d \<in> set dates \<and> startswith d year_month \<and> org' = org then Some list_size
      else population list_sizes d org')"
  by (induction dates arbitrary: list_sizes) (auto simp: population_store_size)

lemma map_of_dates_loop_None:
  "\<not> startswith d year_month \<Longrightarrow>
   map_of (dates_loop year_month org list_size dates list_sizes) d = None \<longleftrightarrow>
     map_of list_sizes d = None"
  by (induction dates arbitrary: list_sizes) (auto simp: map_of_store_size_None)

lemma recorded_size_Cons:
  "recorded_size (item # rest) org =
     (case recorded_size rest org of
        Some n \<Rightarrow> Some n
      | None \<Rightarrow>
          if row_id item = org
          then Some (case total_list_size item of None \<Rightarrow> 0 | Some n \<Rightarrow> n) else None)"
proof -
  have "find P (xs @ [x]) = (case find P xs of Some y \<Rightarrow> Some y | None \<Rightarrow> if P x then Some x else None)"
    for P and xs :: "org_details_item list" and x
    by (induction xs) simp_all
  then show ?thesis
    by (simp add: recorded_size_def split: option.split)
qed

lemma population_items_loop:
  "population (items_loop year_month org_ids dates data list_sizes) d org =
     (if d \<in> set dates \<and> startswith d year_month \<and> org \<in> org_ids
      then (case recorded_size data org of
              Some n \<Rightarrow> Some n
            | None \<Rightarrow> population list_sizes d org)
      else population list_sizes d org)"
proof (induction data arbitrary: list_sizes)
  case Nil
  show ?case by (simp add: recorded_size_def)
next
  case (Cons item rest)
  show ?case
    by (simp add: Cons.IH Let_def population_dates_loop recorded_size_Cons split: option.split)
qed

lemma map_of_items_loop_None:
  "\<not> startswith d year_month \<Longrightarrow>
   map_of (items_loop year_month org_ids dates data list_sizes) d = None \<longleftrightarrow>
     map_of list_sizes d = None"
  by (induction data arbitrary: list_sizes) (simp_all add: Let_def map_of_dates_loop_None)

lemma startswith_month: "length year_month = 7 \<Longrightarrow> startswith d year_month \<longleftrightarrow> take 7 d = year_month"
  by (simp add: startswith_def)

lemma population_months_loop:
  assumes "\<forall>m\<in>set months. length m = 7"
  shows "population (fst (months_loop get org_ids dates months (list_sizes, io))) d org =
     (if take 7 d \<in> set months \<and> d \<in> set dates \<and> org \<in> org_ids
      then (case get (list_size_url (take 7 d)) of
              RequestException e \<Rightarrow> population list_sizes d org
            | Body data \<Rightarrow>
                (case recorded_size data org of
                   Some n \<Rightarrow> Some n
                 | None \<Rightarrow> population list_sizes d org))
      else population list_sizes d org)"
  using assms
proof (induction months arbitrary: list_sizes io)
  case Nil
  show ?case by simp
next
  case (Cons m months)
  from Cons.prems have len: "length m = 7" and rest: "\<forall>m\<in>set months. length m = 7"
    by simp_all
  note IH = Cons.IH [OF rest]
  show ?case
  proof (cases "get (list_size_url m)")
    case (RequestException e)
    then show ?thesis
      by (auto simp: IH Let_def split: fetched.split option.split)
  next
    case (Body data)
    then show ?thesis
      by (auto simp: IH Let_def population_items_loop startswith_month [OF len]
          split: fetched.split option.split)
  qed
qed

lemma map_of_months_loop_None:
  assumes "\<forall>m\<in>set months. length m = 7"
    and "get (list_size_url (take 7 d)) = RequestException e"
    and "map_of list_sizes d = None"
  shows "map_of (fst (months_loop get org_ids dates months (list_sizes, io))) d = None"
  using assms
proof (induction months arbitrary: list_sizes io)
  case Nil
  then show ?case by simp
next
  case (Cons m months)
  from Cons.prems have len: "length m = 7" and rest: "\<forall>m\<in>set months. length m = 7"
    by simp_all
  show ?case
  proof (cases "get (list_size_url m)")
    case (RequestException e')
    then show ?thesis
      using Cons.IH [OF rest Cons.prems(2) Cons.prems(3)] by (simp add: Let_def)
  next
    case (Body data)
    with Cons.prems(2) have "take 7 d \<noteq> m" by auto
    then have "\<not> startswith d m" by (simp add: startswith_month [OF len])
    then have "map_of (items_loop m org_ids dates data list_sizes) d = None"
      using Cons.prems(3) by (simp add: map_of_items_loop_None)
    then show ?thesis
      using Body Cons.IH [OF rest Cons.prems(2)] by (simp add: Let_def)
  qed
qed

lemma population_Nil: "population [] d org = None"
  by (simp add: population_def)

lemma months_of_dates:
  assumes "iteration_order order" and "\<forall>d\<in>set dates. 7 \<le> length d"
  shows "\<forall>m\<in>set (order (unique_months_loop dates [])). length m = 7"
proof -
  have "distinct (unique_months_loop dates [])"
    and "set (unique_months_loop dates []) = take 7 ` set dates"
    using unique_months_loop_members [of "[]" dates] by simp_all
  with assms(1) have "set (order (unique_months_loop dates [])) = take 7 ` set dates"
    by (simp add: iteration_order_def)
  with assms(2) show ?thesis by auto
qed

lemma months_order:
  assumes "iteration_order order"
  shows "distinct (order (unique_months_loop dates [])) \<and>
         set (order (unique_months_loop dates [])) = take 7 ` set dates"
proof -
  have "distinct (unique_months_loop dates [])"
    and "set (unique_months_loop dates []) = take 7 ` set dates"
    using unique_months_loop_members [of "[]" dates] by simp_all
  with assms show ?thesis by (simp add: iteration_order_def)
qed

section \<open>Properties of the unweighted ranking\<close>

lemma max_loop_find:
  "\<forall>y\<in>set (b # xs). key y \<le> m \<Longrightarrow> \<exists>y\<in>set (b # xs). key y = m \<Longrightarrow>
   find (\<lambda>y. key y = m) (b # xs) = Some (max_loop key b xs)"
proof (induction xs arbitrary: b)
  case Nil
  then show ?case by simp
next
  case (Cons x xs)
  let ?b = "if key b < key x then x else b"
  have bound: "\<forall>y\<in>set (?b # xs). key y \<le> m"
    using Cons.prems(1) by simp
  have attained: "\<exists>y\<in>set (?b # xs). key y = m"
    using Cons.prems by (cases "key b < key x") force+
  have "find (\<lambda>y. key y = m) (b # x # xs) = find (\<lambda>y. key y = m) (?b # xs)"
    using Cons.prems(1) by (cases "key b < key x") force+
  also have "\<dots> = Some (max_loop key ?b xs)"
    by (rule Cons.IH [OF bound attained])
  finally show ?case by simp
qed

lemma max_loop_first_max:
  "first_max key (b # xs) = Some (max_loop key b xs)"
proof -
  let ?m = "Max (set (map key (b # xs)))"
  have "\<forall>y\<in>set (b # xs). key y \<le> ?m"
    by (intro ballI Max_ge) auto
  moreover have "?m \<in> set (map key (b # xs))"
    by (rule Max_in) simp_all
  then have "\<exists>y\<in>set (b # xs). key y = ?m"
    by (metis (no_types, lifting) image_iff set_map)
  ultimately show ?thesis
    unfolding first_max_def by (rule max_loop_find)
qed

lemma top_loop_rows:
  "set dates \<subseteq> set (keys spending_data) \<Longrightarrow>
   top_loop spending_data dates results =
     Inr (results @ concat (map (top_row spending_data) dates))"
proof (induction dates arbitrary: results)
  case Nil
  show ?case by simp
next
  case (Cons date dates)
  from Cons.prems have "date \<in> fst ` set spending_data" by (simp add: keys_def)
  then obtain icb_data where look: "map_of spending_data date = Some icb_data"
    by (metis map_of_eq_None_iff not_Some_eq)
  from Cons.prems have sub: "set dates \<subseteq> set (keys spending_data)" by simp
  show ?case
    using look Cons.IH [OF sub]
    by (cases icb_data) (simp_all add: top_row_def py_max_def)
qed

lemma find_top_prescriber_by_month_rows:
  "find_top_prescriber_by_month spending_data =
     Inr (concat (map (top_row spending_data) (sort (keys spending_data))))"
  unfolding find_top_prescriber_by_month_def
  using top_loop_rows [of "sort (keys spending_data)" spending_data "[]"] by simp

subsection \<open>Rows of a ranking\<close>

text \<open>
  Both rankings are the concatenation, over the sorted dates, of at most one pair per date.
\<close>

lemma filter_rows:
  assumes "\<And>d. \<forall>p\<in>set (f d). fst p = d"
  shows "filter (\<lambda>p. fst p = date) (concat (map f dates)) =
         concat (map f (filter (\<lambda>d. d = date) dates))"
proof (induction dates)
  case Nil
  show ?case by simp
next
  case (Cons d dates)
  have "filter (\<lambda>p. fst p = date) (f d) = (if d = date then f d else [])"
    using assms [of d] by (auto simp: filter_empty_conv intro: filter_True)
  with Cons show ?case by simp
qed

lemma filter_eq_single:
  "distinct dates \<Longrightarrow> date \<in> set dates \<Longrightarrow> filter (\<lambda>d. d = date) dates = [date]"
  by (induction dates) (auto simp: filter_empty_conv)

lemma row_of_date:
  assumes "\<And>d. \<forall>p\<in>set (f d). fst p = d"
    and "distinct (keys spending_data)" and "date \<in> set (keys spending_data)"
  shows "filter (\<lambda>p. fst p = date) (concat (map f (sort (keys spending_data)))) = f date"
proof -
  have "filter (\<lambda>d. d = date) (sort (keys spending_data)) = [date]"
    using assms(2,3) by (intro filter_eq_single) simp_all
  then show ?thesis
    using filter_rows [of f date "sort (keys spending_data)"] assms(1) by simp
qed

lemma map_fst_rows:
  assumes "\<And>d. f d = [] \<or> (\<exists>v. f d = [(d, v)])"
  shows "map fst (concat (map f dates)) = filter (\<lambda>d. f d \<noteq> []) dates"
proof (induction dates)
  case Nil
  show ?case by simp
next
  case (Cons d dates)
  then show ?case using assms [of d] by auto
qed

lemma rows_increasing:
  assumes "\<And>d. f d = [] \<or> (\<exists>v. f d = [(d, v)])" and "distinct (keys spending_data)"
  shows "sorted_wrt (<) (map fst (concat (map f (sort (keys spending_data)))))"
proof -
  have "sorted_wrt (<) (sort (keys spending_data))"
    using assms(2) by (simp add: strict_sorted_iff)
  then show ?thesis
    unfolding map_fst_rows [of f, OF assms(1)] by (rule sorted_wrt_filter)
qed

lemma rows_dates:
  assumes "\<And>d. f d = [] \<or> (\<exists>v. f d = [(d, v)])"
  shows "set (map fst (concat (map f (sort (keys spending_data))))) =
         {d \<in> set (keys spending_data). f d \<noteq> []}"
  unfolding map_fst_rows [of f, OF assms] by auto

lemma top_row_shape:
  "top_row spending_data d = [] \<or> (\<exists>v. top_row spending_data d = [(d, v)])"
  by (simp add: top_row_def split: option.split list.split)

lemma top_row_fst: "\<forall>p\<in>set (top_row spending_data d). fst p = d"
  using top_row_shape [of spending_data d] by auto

section \<open>Properties of the weighted ranking\<close>

lemma dict_get_population:
  "dict_get (dict_get list_sizes date []) org 0 =
     (case population list_sizes date org of None \<Rightarrow> 0 | Some p \<Rightarrow> p)"
  by (simp add: dict_get_def population_def split: option.split)

lemma rates_loop_returns:
  "\<forall>icb\<in>set icb_data. has_rate list_sizes date icb \<longrightarrow>
      rate_of truediv list_sizes date icb \<noteq> None \<Longrightarrow>
   rates_loop truediv list_sizes date icb_data icb_rates =
     Inr (icb_rates @ rates_of truediv list_sizes date icb_data)"
proof (induction icb_data arbitrary: icb_rates)
  case Nil
  show ?case by (simp add: rates_of_def)
next
  case (Cons icb rest)
  from Cons.prems have rest: "\<forall>icb\<in>set rest. has_rate list_sizes date icb \<longrightarrow>
      rate_of truediv list_sizes date icb \<noteq> None" by simp
  show ?case
  proof (cases "population list_sizes date (org_id icb)")
    case None
    then show ?thesis
      using Cons.IH [OF rest]
      by (simp add: dict_get_population has_rate_def rates_of_def)
  next
    case (Some p)
    show ?thesis
    proof (cases "0 < p")
      case False
      with Some show ?thesis
        using Cons.IH [OF rest]
        by (simp add: dict_get_population has_rate_def rates_of_def)
    next
      case True
      with Some Cons.prems obtain rate where "truediv (items icb) p = Some rate"
        by (auto simp: has_rate_def rate_of_def)
      with Some True show ?thesis
        using Cons.IH [OF rest]
        by (simp add: dict_get_population has_rate_def rate_of_def rates_of_def)
    qed
  qed
qed

lemma rates_loop_raises:
  "\<exists>icb\<in>set icb_data. has_rate list_sizes date icb \<and>
      rate_of truediv list_sizes date icb = None \<Longrightarrow>
   rates_loop truediv list_sizes date icb_data icb_rates =
     Inl (OverflowError ''integer division result too large for a float'')"
proof (induction icb_data arbitrary: icb_rates)
  case Nil
  then show ?case by simp
next
  case (Cons icb rest)
  show ?case
  proof (cases "has_rate list_sizes date icb \<and> rate_of truediv list_sizes date icb = None")
    case True
    then show ?thesis
      by (auto simp: dict_get_population has_rate_def rate_of_def split: option.splits)
  next
    case False
    with Cons.prems have "\<exists>icb\<in>set rest. has_rate list_sizes date icb \<and>
      rate_of truediv list_sizes date icb = None" by auto
    then have IH: "rates_loop truediv list_sizes date rest acc =
        Inl (OverflowError ''integer division result too large for a float'')" for acc
      by (rule Cons.IH)
    show ?thesis
      by (simp add: IH dict_get_population split: option.split)
  qed
qed

lemma rates_of_empty: "rates_of truediv list_sizes date [] = []"
  by (simp add: rates_of_def)

lemma weighted_loop_returns:
  "set dates \<subseteq> set (keys spending_data) \<Longrightarrow>
   \<forall>d\<in>set dates. \<not> date_overflows truediv spending_data list_sizes d \<Longrightarrow>
   weighted_loop truediv spending_data list_sizes dates results =
     Inr (results @ concat (map (weighted_row truediv spending_data list_sizes) dates))"
proof (induction dates arbitrary: results)
  case Nil
  show ?case by simp
next
  case (Cons date dates)
  from Cons.prems have "date \<in> fst ` set spending_data" by (simp add: keys_def)
  then obtain icb_data where look: "map_of spending_data date = Some icb_data"
    by (metis map_of_eq_None_iff not_Some_eq)
  from Cons.prems have sub: "set dates \<subseteq> set (keys spending_data)"
    and rest: "\<forall>d\<in>set dates. \<not> date_overflows truediv spending_data list_sizes d"
    and this_date: "\<not> date_overflows truediv spending_data list_sizes date"
    by simp_all
  from this_date look have "\<forall>icb\<in>set icb_data. has_rate list_sizes date icb \<longrightarrow>
      rate_of truediv list_sizes date icb \<noteq> None"
    by (auto simp: date_overflows_def dict_get_def)
  then have rates: "rates_loop truediv list_sizes date icb_data [] =
      Inr (rates_of truediv list_sizes date icb_data)"
    using rates_loop_returns [of icb_data list_sizes date truediv "[]"] by simp
  note IH = Cons.IH [OF sub rest]
  show ?case
  proof (cases "rates_of truediv list_sizes date icb_data")
    case Nil
    then show ?thesis
      using look rates IH by (simp add: weighted_row_def)
  next
    case (Cons r rs)
    then have "icb_data \<noteq> []" by (auto simp: rates_of_empty)
    then show ?thesis
      using look rates Cons IH by (simp add: weighted_row_def py_max_def)
  qed
qed

lemma weighted_loop_raises:
  "set dates \<subseteq> set (keys spending_data) \<Longrightarrow>
   \<exists>d\<in>set dates. date_overflows truediv spending_data list_sizes d \<Longrightarrow>
   weighted_loop truediv spending_data list_sizes dates results =
     Inl (OverflowError ''integer division result too large for a float'')"
proof (induction dates arbitrary: results)
  case Nil
  then show ?case by simp
next
  case (Cons date dates)
  from Cons.prems have "date \<in> fst ` set spending_data" by (simp add: keys_def)
  then obtain icb_data where look: "map_of spending_data date = Some icb_data"
    by (metis map_of_eq_None_iff not_Some_eq)
  from Cons.prems have sub: "set dates \<subseteq> set (keys spending_data)" by simp
  show ?case
  proof (cases "date_overflows truediv spending_data list_sizes date")
    case True
    with look have bad: "\<exists>icb\<in>set icb_data. has_rate list_sizes date icb \<and>
        rate_of truediv list_sizes date icb = None"
      by (auto simp: date_overflows_def dict_get_def)
    then have "icb_data \<noteq> []" by auto
    then show ?thesis
      using look rates_loop_raises [OF bad, of "[]"] by simp
  next
    case False
    with Cons.prems(2) have later:
      "\<exists>d\<in>set dates. date_overflows truediv spending_data list_sizes d" by auto
    have IH: "weighted_loop truediv spending_data list_sizes dates acc =
        Inl (OverflowError ''integer division result too large for a float'')" for acc
      using sub later by (rule Cons.IH)
    from False look have "\<forall>icb\<in>set icb_data. has_rate list_sizes date icb \<longrightarrow>
        rate_of truediv list_sizes date icb \<noteq> None"
      by (auto simp: date_overflows_def dict_get_def)
    then have rates: "rates_loop truediv list_sizes date icb_data [] =
        Inr (rates_of truediv list_sizes date icb_data)"
      using rates_loop_returns [of icb_data list_sizes date truediv "[]"] by simp
    show ?thesis
      using look rates IH by (simp add: py_max_def split: list.split)
  qed
qed

lemma find_top_prescriber_by_month_weighted_rows:
  "find_top_prescriber_by_month_weighted truediv spending_data list_sizes =
     (if overflows truediv spending_data list_sizes
      then Inl (OverflowError ''integer division result too large for a float'')
      else Inr (concat (map (weighted_row truediv spending_data list_sizes)
                          (sort (keys spending_data)))))"
proof (cases "overflows truediv spending_data list_sizes")
  case True
  then have "\<exists>d\<in>set (sort (keys spending_data)).
      date_overflows truediv spending_data list_sizes d"
    by (simp add: overflows_def)
  then show ?thesis
    using True weighted_loop_raises
      [of "sort (keys spending_data)" spending_data truediv list_sizes "[]"]
    by (simp add: find_top_prescriber_by_month_weighted_def)
next
  case False
  then have "\<forall>d\<in>set (sort (keys spending_data)).
      \<not> date_overflows truediv spending_data list_sizes d"
    by (simp add: overflows_def)
  then show ?thesis
    using False weighted_loop_returns
      [of "sort (keys spending_data)" spending_data truediv list_sizes "[]"]
    by (simp add: find_top_prescriber_by_month_weighted_def)
qed

lemma weighted_returns_iff:
  "(\<exists>results. find_top_prescriber_by_month_weighted truediv spending_data list_sizes =
      Inr results) \<longleftrightarrow> \<not> overflows truediv spending_data list_sizes"
  by (simp add: find_top_prescriber_by_month_weighted_rows)

lemma weighted_row_shape:
  "weighted_row truediv spending_data list_sizes d = [] \<or>
   (\<exists>v. weighted_row truediv spending_data list_sizes d = [(d, v)])"
  by (simp add: weighted_row_def split: option.split list.split)

lemma weighted_row_fst:
  "\<forall>p\<in>set (weighted_row truediv spending_data list_sizes d). fst p = d"
  using weighted_row_shape [of truediv spending_data list_sizes d] by auto

lemma first_max_map:
  "first_max key (map g xs) = map_option g (first_max (\<lambda>x. key (g x)) xs)"
proof -
  have "find P (map g xs) = map_option g (find (\<lambda>x. P (g x)) xs)" for P
    by (induction xs) simp_all
  then show ?thesis by (simp add: first_max_def comp_def)
qed

lemma concat_known:
  "\<forall>x\<in>set xs. f x = Some (g x) \<Longrightarrow>
   concat (map (\<lambda>x. case f x of None \<Rightarrow> [] | Some r \<Rightarrow> [(h x, r)]) xs) =
     map (\<lambda>x. (h x, g x)) xs"
  by (induction xs) simp_all

lemma rates_of_known:
  "\<forall>icb\<in>set (filter (has_rate list_sizes date) icb_data).
      rate_of truediv list_sizes date icb = Some (rate icb) \<Longrightarrow>
   rates_of truediv list_sizes date icb_data =
     map (\<lambda>icb. (org_name icb, rate icb)) (filter (has_rate list_sizes date) icb_data)"
  unfolding rates_of_def by (rule concat_known)

lemma weighted_row_top_row:
  "weighted_row truediv spending_data list_sizes d \<noteq> [] \<Longrightarrow> top_row spending_data d \<noteq> []"
  by (auto simp: weighted_row_def top_row_def rates_of_empty split: option.splits list.splits)

section \<open>The claims about the two rankings\<close>

text \<open>
  C1. Unweighted ranking: for a spending mapping (a dict, so its keys are distinct) and a
  date of it that has at least one entry, the result holds exactly one pair for that date,
  and it names the organization of the first entry, in iteration order, whose item count is
  the maximum item count of that date's entries.
\<close>

theorem unweighted_picks_first_max:
  assumes "distinct (keys spending_data)"
    and "map_of spending_data date = Some icb_data"
    and "icb_data \<noteq> []"
  shows "\<exists>results top.
           find_top_prescriber_by_month spending_data = Inr results \<and>
           first_max items icb_data = Some top \<and>
           filter (\<lambda>p. fst p = date) results = [(date, org_name top)]"
proof -
  from assms(3) obtain x rest where icb: "icb_data = x # rest" by (cases icb_data) auto
  have key: "date \<in> set (keys spending_data)"
    using assms(2) by (auto simp: keys_def dest: map_of_SomeD intro: rev_image_eqI)
  have "filter (\<lambda>p. fst p = date)
          (concat (map (top_row spending_data) (sort (keys spending_data)))) =
        top_row spending_data date"
    using top_row_fst assms(1) key by (rule row_of_date)
  moreover have "top_row spending_data date = [(date, org_name (max_loop items x rest))]"
    using assms(2) icb by (simp add: top_row_def)
  moreover have "first_max items icb_data = Some (max_loop items x rest)"
    unfolding icb by (rule max_loop_first_max)
  ultimately show ?thesis
    by (simp add: find_top_prescriber_by_month_rows)
qed

text \<open>
  The example of the specification: entries A with 5 items, B with 9 and C with 9 on one
  date (next to a later date and a date without entries); the date is paired with B.
\<close>

theorem unweighted_picks_first_max_witness:
  "\<exists>results.
     find_top_prescriber_by_month
       [(''2024-02-01'',
         [\<lparr>org_id = Some ''QD'', org_name = Some ''D'', items = 1, quantity = 0::int, actual_cost = 0\<rparr>]),
        (''2024-01-01'',
         [\<lparr>org_id = Some ''QA'', org_name = Some ''A'', items = 5, quantity = 0, actual_cost = 0\<rparr>,
          \<lparr>org_id = Some ''QB'', org_name = Some ''B'', items = 9, quantity = 0, actual_cost = 0\<rparr>,
          \<lparr>org_id = Some ''QC'', org_name = Some ''C'', items = 9, quantity = 0, actual_cost = 0\<rparr>]),
        (''2023-12-01'', [])]
       = Inr results \<and>
     filter (\<lambda>p. fst p = ''2024-01-01'') results = [(''2024-01-01'', Some ''B'')]"
  using unweighted_picks_first_max
    [of "[(''2024-02-01'',
         [\<lparr>org_id = Some ''QD'', org_name = Some ''D'', items = 1, quantity = 0::int, actual_cost = 0\<rparr>]),
        (''2024-01-01'',
         [\<lparr>org_id = Some ''QA'', org_name = Some ''A'', items = 5, quantity = 0, actual_cost = 0\<rparr>,
          \<lparr>org_id = Some ''QB'', org_name = Some ''B'', items = 9, quantity = 0, actual_cost = 0\<rparr>,
          \<lparr>org_id = Some ''QC'', org_name = Some ''C'', items = 9, quantity = 0, actual_cost = 0\<rparr>]),
        (''2023-12-01'', [])]"
        "''2024-01-01''"
        "[\<lparr>org_id = Some ''QA'', org_name = Some ''A'', items = 5, quantity = 0::int, actual_cost = 0\<rparr>,
          \<lparr>org_id = Some ''QB'', org_name = Some ''B'', items = 9, quantity = 0, actual_cost = 0\<rparr>,
          \<lparr>org_id = Some ''QC'', org_name = Some ''C'', items = 9, quantity = 0, actual_cost = 0\<rparr>]"]
  by (simp add: keys_def first_max_def)

text \<open>
  C2. Weighted ranking: the function returns unless a division overflows, and then it
  raises \<open>OverflowError\<close>. In what it returns, on a date of the spending mapping, only
  the entries whose organization has a known and strictly positive population on that date
  have a rate (an unknown or a zero population excludes the entry). If no entry has a rate
  the result has no pair for the date; otherwise it has exactly one, naming the
  organization of the first entry, in iteration order, whose rate \<open>items / population\<close>
  is the maximum rate.
\<close>

theorem weighted_picks_first_max_rate:
  assumes "distinct (keys spending_data)"
    and "map_of spending_data date = Some (icb_data :: 'n entry list)"
  shows "((\<exists>results. find_top_prescriber_by_month_weighted truediv spending_data list_sizes = Inr results) \<longleftrightarrow>
            \<not> overflows truediv spending_data list_sizes) \<and>
         (\<forall>e. find_top_prescriber_by_month_weighted truediv spending_data list_sizes = Inl e \<longrightarrow>
            e = OverflowError ''integer division result too large for a float'') \<and>
         (\<forall>results. find_top_prescriber_by_month_weighted truediv spending_data list_sizes = Inr results \<longrightarrow>
            (filter (has_rate list_sizes date) icb_data = [] \<longrightarrow>
               filter (\<lambda>p. fst p = date) results = []) \<and>
            (filter (has_rate list_sizes date) icb_data \<noteq> [] \<longrightarrow>
               (\<exists>rate top.
                  (\<forall>icb\<in>set (filter (has_rate list_sizes date) icb_data).
                     rate_of truediv list_sizes date icb = Some (rate icb)) \<and>
                  first_max rate (filter (has_rate list_sizes date) icb_data) = Some top \<and>
                  filter (\<lambda>p. fst p = date) results = [(date, org_name top)])))"
proof -
  have raised: "\<forall>e. find_top_prescriber_by_month_weighted truediv spending_data list_sizes = Inl e \<longrightarrow>
      e = OverflowError ''integer division result too large for a float''"
    by (simp add: find_top_prescriber_by_month_weighted_rows)
  have returned: "(filter (has_rate list_sizes date) icb_data = [] \<longrightarrow>
               filter (\<lambda>p. fst p = date) results = []) \<and>
            (filter (has_rate list_sizes date) icb_data \<noteq> [] \<longrightarrow>
               (\<exists>rate top.
                  (\<forall>icb\<in>set (filter (has_rate list_sizes date) icb_data).
                     rate_of truediv list_sizes date icb = Some (rate icb)) \<and>
                  first_max rate (filter (has_rate list_sizes date) icb_data) = Some top \<and>
                  filter (\<lambda>p. fst p = date) results = [(date, org_name top)]))"
    if ret: "find_top_prescriber_by_month_weighted truediv spending_data list_sizes = Inr results" for results
  proof -
    from ret have no: "\<not> overflows truediv spending_data list_sizes"
      and res: "results = concat (map (weighted_row truediv spending_data list_sizes)
                                   (sort (keys spending_data)))"
      by (simp_all add: find_top_prescriber_by_month_weighted_rows split: if_splits)
    have key: "date \<in> set (keys spending_data)"
      using assms(2) by (auto simp: keys_def dest: map_of_SomeD intro: rev_image_eqI)
    have row: "filter (\<lambda>p. fst p = date) results =
        weighted_row truediv spending_data list_sizes date"
      unfolding res using weighted_row_fst assms(1) key by (rule row_of_date)
    let ?usable = "filter (has_rate list_sizes date) icb_data"
    define rate where "rate = (\<lambda>icb :: 'n entry. the (rate_of truediv list_sizes date icb))"
    from no key have "\<not> date_overflows truediv spending_data list_sizes date"
      by (auto simp: overflows_def)
    with assms(2) have known:
      "\<forall>icb\<in>set ?usable. rate_of truediv list_sizes date icb = Some (rate icb)"
      by (auto simp: date_overflows_def dict_get_def rate_def)
    let ?pair = "\<lambda>icb. (org_name icb, rate icb)"
    have rates: "rates_of truediv list_sizes date icb_data = map ?pair ?usable"
      using known by (rule rates_of_known)
    have none: "weighted_row truediv spending_data list_sizes date = []" if "?usable = []"
      using assms(2) rates that by (simp add: weighted_row_def)
    have some: "\<exists>top. first_max rate ?usable = Some top \<and>
        weighted_row truediv spending_data list_sizes date = [(date, org_name top)]"
      if "?usable \<noteq> []"
    proof -
      from that obtain u us where us: "?usable = u # us" by (cases ?usable) auto
      have "first_max snd (map ?pair (u # us)) =
          Some (max_loop snd (?pair u) (map ?pair us))"
        using max_loop_first_max [of snd "?pair u" "map ?pair us"] by simp
      then obtain top where top: "first_max rate (u # us) = Some top"
        and eq: "max_loop snd (?pair u) (map ?pair us) = ?pair top"
        unfolding first_max_map by auto
      have "weighted_row truediv spending_data list_sizes date = [(date, org_name top)]"
        using assms(2) rates us eq by (simp add: weighted_row_def)
      with top us show ?thesis by simp
    qed
    show ?thesis
      using row none some known by auto
  qed
  show ?thesis
    using weighted_returns_iff [of truediv spending_data list_sizes] raised returned
    by blast
qed

text \<open>
  The division of the example gives the exact quotient and overflows when the quotient,
  rounded to a double, would reach \<open>2 ^ 1024\<close>. The only entry of 2024-02-01 has
  population 0, so that date is left out; on 2024-01-01, A has 10 items for 40 patients, B
  has 12 for 32 and C has no known population, and B is picked (both quotients are exact in
  binary). With \<open>10 ^ 400\<close> items for one patient the division overflows and the call
  raises.
\<close>

theorem weighted_picks_first_max_rate_witness:
  "(\<exists>results.
     find_top_prescriber_by_month_weighted
       (\<lambda>a b. if (2 ^ 1024 - 2 ^ 970) * \<bar>b\<bar> \<le> \<bar>a\<bar> then None else Some (rat_of_int a / rat_of_int b))
       [(''2024-02-01'',
         [\<lparr>org_id = Some ''QA'', org_name = Some ''A'', items = 100, quantity = 0::int, actual_cost = 0\<rparr>]),
        (''2024-01-01'',
         [\<lparr>org_id = Some ''QA'', org_name = Some ''A'', items = 10, quantity = 0::int, actual_cost = 0\<rparr>,
          \<lparr>org_id = Some ''QB'', org_name = Some ''B'', items = 12, quantity = 0::int, actual_cost = 0\<rparr>,
          \<lparr>org_id = Some ''QC'', org_name = Some ''C'', items = 99, quantity = 0::int, actual_cost = 0\<rparr>]),
        (''2023-12-01'', [])]
       [(''2024-02-01'', [(Some ''QA'', 0)]),
        (''2024-01-01'', [(Some ''QA'', 40), (Some ''QB'', 32)])]
       = Inr results \<and>
     filter (\<lambda>p. fst p = ''2024-02-01'') results = [] \<and>
     filter (\<lambda>p. fst p = ''2024-01-01'') results = [(''2024-01-01'', Some ''B'')]) \<and>
   find_top_prescriber_by_month_weighted
       (\<lambda>a b. if (2 ^ 1024 - 2 ^ 970) * \<bar>b\<bar> \<le> \<bar>a\<bar> then None else Some (rat_of_int a / rat_of_int b))
       [(''2024-01-01'', [\<lparr>org_id = Some ''QA'', org_name = Some ''A'', items = 10 ^ 400, quantity = 0::int, actual_cost = 0\<rparr>])]
       [(''2024-01-01'', [(Some ''QA'', 1)])]
     = Inl (OverflowError ''integer division result too large for a float'')"
proof -
  let ?td = "\<lambda>a b. if (2 ^ 1024 - 2 ^ 970) * \<bar>b\<bar> \<le> \<bar>a\<bar> then None else Some (rat_of_int a / rat_of_int b)"
  let ?sd = "[(''2024-02-01'',
         [\<lparr>org_id = Some ''QA'', org_name = Some ''A'', items = 100, quantity = 0::int, actual_cost = 0\<rparr>]),
        (''2024-01-01'',
         [\<lparr>org_id = Some ''QA'', org_name = Some ''A'', items = 10, quantity = 0::int, actual_cost = 0\<rparr>,
          \<lparr>org_id = Some ''QB'', org_name = Some ''B'', items = 12, quantity = 0::int, actual_cost = 0\<rparr>,
          \<lparr>org_id = Some ''QC'', org_name = Some ''C'', items = 99, quantity = 0::int, actual_cost = 0\<rparr>]),
        (''2023-12-01'', [])]"
  let ?ls = "[(''2024-02-01'', [(Some ''QA'', 0)]),
        (''2024-01-01'', [(Some ''QA'', 40), (Some ''QB'', 32)])]"
  let ?feb = "[\<lparr>org_id = Some ''QA'', org_name = Some ''A'', items = 100, quantity = 0::int, actual_cost = 0\<rparr>]"
  let ?jan = "[\<lparr>org_id = Some ''QA'', org_name = Some ''A'', items = 10, quantity = 0::int, actual_cost = 0\<rparr>,
          \<lparr>org_id = Some ''QB'', org_name = Some ''B'', items = 12, quantity = 0::int, actual_cost = 0\<rparr>,
          \<lparr>org_id = Some ''QC'', org_name = Some ''C'', items = 99, quantity = 0::int, actual_cost = 0\<rparr>]"
  let ?A = "\<lparr>org_id = Some ''QA'', org_name = Some ''A'', items = 10, quantity = 0::int, actual_cost = 0\<rparr>"
  let ?B = "\<lparr>org_id = Some ''QB'', org_name = Some ''B'', items = 12, quantity = 0::int, actual_cost = 0\<rparr>"
  let ?sd2 = "[(''2024-01-01'', [\<lparr>org_id = Some ''QA'', org_name = Some ''A'', items = 10 ^ 400, quantity = 0::int, actual_cost = 0\<rparr>])]"
  let ?ls2 = "[(''2024-01-01'', [(Some ''QA'', 1)])]"
  have dist: "distinct (keys ?sd)" by (simp add: keys_def)
  have feb: "map_of ?sd ''2024-02-01'' = Some ?feb" by simp
  have jan: "map_of ?sd ''2024-01-01'' = Some ?jan" by simp
  have no: "\<not> overflows ?td ?sd ?ls"
  proof -
    have "\<not> date_overflows ?td ?sd ?ls ''2024-02-01''"
      by (simp add: date_overflows_def dict_get_def has_rate_def population_def rate_of_def)
    moreover have "\<not> date_overflows ?td ?sd ?ls ''2024-01-01''"
      by (simp add: date_overflows_def dict_get_def has_rate_def population_def rate_of_def)
    moreover have "\<not> date_overflows ?td ?sd ?ls ''2023-12-01''"
      by (simp add: date_overflows_def dict_get_def has_rate_def population_def rate_of_def)
    ultimately show ?thesis
      by (simp add: overflows_def keys_def)
  qed
  note F = weighted_picks_first_max_rate [of ?sd "''2024-02-01''" ?feb ?td ?ls, OF dist feb]
  note J = weighted_picks_first_max_rate [of ?sd "''2024-01-01''" ?jan ?td ?ls, OF dist jan]
  from F no obtain results where
    ret: "find_top_prescriber_by_month_weighted ?td ?sd ?ls = Inr results" by blast
  have "filter (has_rate ?ls ''2024-02-01'') ?feb = []"
    by (simp add: has_rate_def population_def)
  with F ret have r1: "filter (\<lambda>p. fst p = ''2024-02-01'') results = []" by blast
  have usable: "filter (has_rate ?ls ''2024-01-01'') ?jan = [?A, ?B]"
    by (simp add: has_rate_def population_def)
  with J ret obtain rate top where
    known: "\<forall>icb\<in>set [?A, ?B]. rate_of ?td ?ls ''2024-01-01'' icb = Some (rate icb)" and
    top: "first_max rate [?A, ?B] = Some top" and
    row: "filter (\<lambda>p. fst p = ''2024-01-01'') results = [(''2024-01-01'', org_name top)]"
    by (auto simp del: filter.simps)
  from known have "rate ?A = 1 / 4" "rate ?B = 3 / 8"
    by (simp_all add: rate_of_def population_def)
  with top have "top = ?B" by (simp add: first_max_def)
  with row have r2: "filter (\<lambda>p. fst p = ''2024-01-01'') results = [(''2024-01-01'', Some ''B'')]"
    by simp
  have dist2: "distinct (keys ?sd2)" by (simp add: keys_def)
  have jan2: "map_of ?sd2 ''2024-01-01'' = Some [\<lparr>org_id = Some ''QA'', org_name = Some ''A'', items = 10 ^ 400, quantity = 0::int, actual_cost = 0\<rparr>]" by simp
  have ov: "overflows ?td ?sd2 ?ls2"
  proof -
    have "date_overflows ?td ?sd2 ?ls2 ''2024-01-01''"
      by (simp add: date_overflows_def dict_get_def has_rate_def population_def rate_of_def)
    then show ?thesis
      by (simp add: overflows_def keys_def)
  qed
  note O = weighted_picks_first_max_rate
    [of ?sd2 "''2024-01-01''" "[\<lparr>org_id = Some ''QA'', org_name = Some ''A'', items = 10 ^ 400, quantity = 0::int, actual_cost = 0\<rparr>]" ?td ?ls2, OF dist2 jan2]
  from O ov have "\<nexists>results. find_top_prescriber_by_month_weighted ?td ?sd2 ?ls2 = Inr results"
    by blast
  then obtain e where "find_top_prescriber_by_month_weighted ?td ?sd2 ?ls2 = Inl e"
    by (cases "find_top_prescriber_by_month_weighted ?td ?sd2 ?ls2") auto
  with O have r3: "find_top_prescriber_by_month_weighted ?td ?sd2 ?ls2 =
      Inl (OverflowError ''integer division result too large for a float'')"
    by blast
  show ?thesis
    using ret r1 r2 r3 by blast
qed

text \<open>
  C9. In both ranking modes the dates of the output are strictly increasing in the
  lexicographic order of strings, and each of them is a date of the spending mapping. The
  unweighted mode always has an output; the weighted mode has one unless a division
  overflows.
\<close>

theorem ranking_dates_increasing:
  assumes "distinct (keys spending_data)"
  shows "(\<exists>unweighted.
            find_top_prescriber_by_month spending_data = Inr unweighted \<and>
            sorted_wrt (<) (map fst unweighted) \<and>
            set (map fst unweighted) \<subseteq> set (keys spending_data)) \<and>
         ((\<exists>weighted. find_top_prescriber_by_month_weighted truediv spending_data list_sizes = Inr weighted) \<longleftrightarrow>
            \<not> overflows truediv spending_data list_sizes) \<and>
         (\<forall>weighted. find_top_prescriber_by_month_weighted truediv spending_data list_sizes = Inr weighted \<longrightarrow>
            sorted_wrt (<) (map fst weighted) \<and>
            set (map fst weighted) \<subseteq> set (keys spending_data))"
proof -
  have "sorted_wrt (<) (map fst (concat (map (top_row spending_data)
          (sort (keys spending_data)))))"
    using top_row_shape assms by (rule rows_increasing)
  moreover have "set (map fst (concat (map (top_row spending_data)
          (sort (keys spending_data))))) \<subseteq> set (keys spending_data)"
    unfolding rows_dates [of "top_row spending_data", OF top_row_shape] by blast
  ultimately have unweighted: "\<exists>unweighted.
            find_top_prescriber_by_month spending_data = Inr unweighted \<and>
            sorted_wrt (<) (map fst unweighted) \<and>
            set (map fst unweighted) \<subseteq> set (keys spending_data)"
    unfolding find_top_prescriber_by_month_rows by blast
  have inc: "sorted_wrt (<) (map fst (concat
          (map (weighted_row truediv spending_data list_sizes) (sort (keys spending_data)))))"
    using weighted_row_shape assms by (rule rows_increasing)
  have sub: "set (map fst (concat
          (map (weighted_row truediv spending_data list_sizes) (sort (keys spending_data)))))
          \<subseteq> set (keys spending_data)"
    unfolding rows_dates [of "weighted_row truediv spending_data list_sizes",
        OF weighted_row_shape] by blast
  have weighted: "\<forall>weighted. find_top_prescriber_by_month_weighted truediv spending_data list_sizes = Inr weighted \<longrightarrow>
            sorted_wrt (<) (map fst weighted) \<and>
            set (map fst weighted) \<subseteq> set (keys spending_data)"
    using inc sub by (auto simp: find_top_prescriber_by_month_weighted_rows split: if_splits)
  show ?thesis
    using unweighted weighted weighted_returns_iff [of truediv spending_data list_sizes]
    by blast
qed

text \<open>A spending mapping whose dates are not in order, one of them without entries.\<close>

theorem ranking_dates_increasing_witness:
  "(\<exists>unweighted.
      find_top_prescriber_by_month
       [(''2024-02-01'',
         [\<lparr>org_id = Some ''QA'', org_name = Some ''A'', items = 100, quantity = 0::int, actual_cost = 0\<rparr>]),
        (''2024-01-01'',
         [\<lparr>org_id = Some ''QA'', org_name = Some ''A'', items = 10, quantity = 0::int, actual_cost = 0\<rparr>,
          \<lparr>org_id = Some ''QB'', org_name = Some ''B'', items = 12, quantity = 0::int, actual_cost = 0\<rparr>,
          \<lparr>org_id = Some ''QC'', org_name = Some ''C'', items = 99, quantity = 0::int, actual_cost = 0\<rparr>]),
        (''2023-12-01'', [])]
       = Inr unweighted \<and>
      sorted_wrt (<) (map fst unweighted) \<and>
      set (map fst unweighted) \<subseteq> {''2024-02-01'', ''2024-01-01'', ''2023-12-01''}) \<and>
   (\<exists>weighted.
      find_top_prescriber_by_month_weighted
       (\<lambda>a b. if (2 ^ 1024 - 2 ^ 970) * \<bar>b\<bar> \<le> \<bar>a\<bar> then None else Some (rat_of_int a / rat_of_int b))
       [(''2024-02-01'',
         [\<lparr>org_id = Some ''QA'', org_name = Some ''A'', items = 100, quantity = 0::int, actual_cost = 0\<rparr>]),
        (''2024-01-01'',
         [\<lparr>org_id = Some ''QA'', org_name = Some ''A'', items = 10, quantity = 0::int, actual_cost = 0\<rparr>,
          \<lparr>org_id = Some ''QB'', org_name = Some ''B'', items = 12, quantity = 0::int, actual_cost = 0\<rparr>,
          \<lparr>org_id = Some ''QC'', org_name = Some ''C'', items = 99, quantity = 0::int, actual_cost = 0\<rparr>]),
        (''2023-12-01'', [])]
       [(''2024-02-01'', [(Some ''QA'', 0)]),
        (''2024-01-01'', [(Some ''QA'', 40), (Some ''QB'', 32)])]
       = Inr weighted \<and>
      sorted_wrt (<) (map fst weighted) \<and>
      set (map fst weighted) \<subseteq> {''2024-02-01'', ''2024-01-01'', ''2023-12-01''})"
proof -
  let ?td = "\<lambda>a b. if (2 ^ 1024 - 2 ^ 970) * \<bar>b\<bar> \<le> \<bar>a\<bar> then None else Some (rat_of_int a / rat_of_int b)"
  let ?sd = "[(''2024-02-01'',
         [\<lparr>org_id = Some ''QA'', org_name = Some ''A'', items = 100, quantity = 0::int, actual_cost = 0\<rparr>]),
        (''2024-01-01'',
         [\<lparr>org_id = Some ''QA'', org_name = Some ''A'', items = 10, quantity = 0::int, actual_cost = 0\<rparr>,
          \<lparr>org_id = Some ''QB'', org_name = Some ''B'', items = 12, quantity = 0::int, actual_cost = 0\<rparr>,
          \<lparr>org_id = Some ''QC'', org_name = Some ''C'', items = 99, quantity = 0::int, actual_cost = 0\<rparr>]),
        (''2023-12-01'', [])]"
  let ?ls = "[(''2024-02-01'', [(Some ''QA'', 0)]),
        (''2024-01-01'', [(Some ''QA'', 40), (Some ''QB'', 32)])]"
  have dist: "distinct (keys ?sd)" by (simp add: keys_def)
  have no: "\<not> overflows ?td ?sd ?ls"
  proof -
    have "\<not> date_overflows ?td ?sd ?ls ''2024-02-01''"
      by (simp add: date_overflows_def dict_get_def has_rate_def population_def rate_of_def)
    moreover have "\<not> date_overflows ?td ?sd ?ls ''2024-01-01''"
      by (simp add: date_overflows_def dict_get_def has_rate_def population_def rate_of_def)
    moreover have "\<not> date_overflows ?td ?sd ?ls ''2023-12-01''"
      by (simp add: date_overflows_def dict_get_def has_rate_def population_def rate_of_def)
    ultimately show ?thesis
      by (simp add: overflows_def keys_def)
  qed
  have ks: "set (keys ?sd) = {''2024-02-01'', ''2024-01-01'', ''2023-12-01''}"
    by (simp add: keys_def)
  note T = ranking_dates_increasing [of ?sd ?td ?ls, OF dist]
  from T no obtain weighted where
    "find_top_prescriber_by_month_weighted ?td ?sd ?ls = Inr weighted" by blast
  with T show ?thesis unfolding ks by blast
qed

text \<open>
  C10. The dates of the weighted ranking, which is returned unless a division overflows,
  are among the dates of the unweighted ranking of the same spending mapping, whatever the
  population mapping is.
\<close>

theorem weighted_dates_subset_unweighted:
  "(\<exists>unweighted.
      find_top_prescriber_by_month spending_data = Inr unweighted \<and>
      (\<forall>weighted. find_top_prescriber_by_month_weighted truediv spending_data list_sizes = Inr weighted \<longrightarrow>
         set (map fst weighted) \<subseteq> set (map fst unweighted))) \<and>
   ((\<exists>weighted. find_top_prescriber_by_month_weighted truediv spending_data list_sizes = Inr weighted) \<longleftrightarrow>
      \<not> overflows truediv spending_data list_sizes)"
proof -
  have "set (map fst (concat
          (map (weighted_row truediv spending_data list_sizes) (sort (keys spending_data)))))
        \<subseteq> set (map fst (concat (map (top_row spending_data) (sort (keys spending_data)))))"
    unfolding rows_dates [of "weighted_row truediv spending_data list_sizes",
        OF weighted_row_shape]
      rows_dates [of "top_row spending_data", OF top_row_shape]
    using weighted_row_top_row by blast
  then have "\<forall>weighted. find_top_prescriber_by_month_weighted truediv spending_data list_sizes = Inr weighted \<longrightarrow>
         set (map fst weighted) \<subseteq>
         set (map fst (concat (map (top_row spending_data) (sort (keys spending_data)))))"
    by (auto simp: find_top_prescriber_by_month_weighted_rows split: if_splits)
  then show ?thesis
    using weighted_returns_iff [of truediv spending_data list_sizes]
    unfolding find_top_prescriber_by_month_rows by blast
qed

theorem weighted_dates_subset_unweighted_witness:
  "\<exists>unweighted weighted.
      find_top_prescriber_by_month
       [(''2024-02-01'',
         [\<lparr>org_id = Some ''QA'', org_name = Some ''A'', items = 100, quantity = 0::int, actual_cost = 0\<rparr>]),
        (''2024-01-01'',
         [\<lparr>org_id = Some ''QA'', org_name = Some ''A'', items = 10, quantity = 0::int, actual_cost = 0\<rparr>,
          \<lparr>org_id = Some ''QB'', org_name = Some ''B'', items = 12, quantity = 0::int, actual_cost = 0\<rparr>,
          \<lparr>org_id = Some ''QC'', org_name = Some ''C'', items = 99, quantity = 0::int, actual_cost = 0\<rparr>]),
        (''2023-12-01'', [])]
       = Inr unweighted \<and>
      find_top_prescriber_by_month_weighted
       (\<lambda>a b. if (2 ^ 1024 - 2 ^ 970) * \<bar>b\<bar> \<le> \<bar>a\<bar> then None else Some (rat_of_int a / rat_of_int b))
       [(''2024-02-01'',
         [\<lparr>org_id = Some ''QA'', org_name = Some ''A'', items = 100, quantity = 0::int, actual_cost = 0\<rparr>]),
        (''2024-01-01'',
         [\<lparr>org_id = Some ''QA'', org_name = Some ''A'', items = 10, quantity = 0::int, actual_cost = 0\<rparr>,
          \<lparr>org_id = Some ''QB'', org_name = Some ''B'', items = 12, quantity = 0::int, actual_cost = 0\<rparr>,
          \<lparr>org_id = Some ''QC'', org_name = Some ''C'', items = 99, quantity = 0::int, actual_cost = 0\<rparr>]),
        (''2023-12-01'', [])]
       [(''2024-02-01'', [(Some ''QA'', 0)]),
        (''2024-01-01'', [(Some ''QA'', 40), (Some ''QB'', 32)])]
       = Inr weighted \<and>
      set (map fst weighted) \<subseteq> set (map fst unweighted)"
proof -
  let ?td = "\<lambda>a b. if (2 ^ 1024 - 2 ^ 970) * \<bar>b\<bar> \<le> \<bar>a\<bar> then None else Some (rat_of_int a / rat_of_int b)"
  let ?sd = "[(''2024-02-01'',
         [\<lparr>org_id = Some ''QA'', org_name = Some ''A'', items = 100, quantity = 0::int, actual_cost = 0\<rparr>]),
        (''2024-01-01'',
         [\<lparr>org_id = Some ''QA'', org_name = Some ''A'', items = 10, quantity = 0::int, actual_cost = 0\<rparr>,
          \<lparr>org_id = Some ''QB'', org_name = Some ''B'', items = 12, quantity = 0::int, actual_cost = 0\<rparr>,
          \<lparr>org_id = Some ''QC'', org_name = Some ''C'', items = 99, quantity = 0::int, actual_cost = 0\<rparr>]),
        (''2023-12-01'', [])]"
  let ?ls = "[(''2024-02-01'', [(Some ''QA'', 0)]),
        (''2024-01-01'', [(Some ''QA'', 40), (Some ''QB'', 32)])]"
  have no: "\<not> overflows ?td ?sd ?ls"
  proof -
    have "\<not> date_overflows ?td ?sd ?ls ''2024-02-01''"
      by (simp add: date_overflows_def dict_get_def has_rate_def population_def rate_of_def)
    moreover have "\<not> date_overflows ?td ?sd ?ls ''2024-01-01''"
      by (simp add: date_overflows_def dict_get_def has_rate_def population_def rate_of_def)
    moreover have "\<not> date_overflows ?td ?sd ?ls ''2023-12-01''"
      by (simp add: date_overflows_def dict_get_def has_rate_def population_def rate_of_def)
    ultimately show ?thesis
      by (simp add: overflows_def keys_def)
  qed
  note T = weighted_dates_subset_unweighted [of ?sd ?td ?ls]
  from T no obtain weighted where
    "find_top_prescriber_by_month_weighted ?td ?sd ?ls = Inr weighted" by blast
  with T show ?thesis by blast
qed

section \<open>The claims about the code resolver and the catalog lookup\<close>

text \<open>
  C3. For a 15-character code, \<open>extract_chemical_code\<close> returns (and never raises) the
  9-character prefix if the existence check succeeds on it, otherwise the 7-character prefix
  if the check succeeds on that, otherwise the 9-character prefix. The existence check on a
  candidate is true exactly when the request succeeds and the body has an item whose id
  equals the candidate; a failed request gives false.
\<close>

theorem resolve_prefers_nine_then_seven:
  assumes "length bnf_code = 15"
  shows "extract_chemical_code get bnf_code =
           Inr (if check_code_exists get (take 9 bnf_code) then take 9 bnf_code
                else if check_code_exists get (take 7 bnf_code) then take 7 bnf_code
                else take 9 bnf_code) \<and>
         (check_code_exists get code \<longleftrightarrow>
            (\<exists>data. get (check_url code) = Body data \<and>
                    (\<exists>item\<in>set data. item_id item = Some code))) \<and>
         (\<forall>e. get (check_url code) = RequestException e \<longrightarrow> \<not> check_code_exists get code)"
  using assms
  by (auto simp: extract_chemical_code_def check_code_exists_def exists_loop_iff Let_def
      split: fetched.splits)

text \<open>
  The request for the 9-character prefix times out, the one for the 7-character prefix
  returns a near match and the exact match: the 7-character prefix is the result.
\<close>

theorem resolve_prefers_nine_then_seven_witness:
  "extract_chemical_code
     (\<lambda>url. if url = check_url ''0407010H0'' then RequestException ''timed out''
            else if url = check_url ''0407010''
            then Body [\<lparr>item_id = Some ''0407010H'', item_name = Some ''near''\<rparr>,
                       \<lparr>item_id = Some ''0407010'', item_name = Some ''Analgesics''\<rparr>]
            else Body [])
     ''0407010H0AAAMAM'' = Inr ''0407010'' \<and>
   check_code_exists
     (\<lambda>url. if url = check_url ''0407010H0'' then RequestException ''timed out''
            else if url = check_url ''0407010''
            then Body [\<lparr>item_id = Some ''0407010H'', item_name = Some ''near''\<rparr>,
                       \<lparr>item_id = Some ''0407010'', item_name = Some ''Analgesics''\<rparr>]
            else Body [])
     ''0407010'' \<and>
   \<not> check_code_exists
     (\<lambda>url. if url = check_url ''0407010H0'' then RequestException ''timed out''
            else if url = check_url ''0407010''
            then Body [\<lparr>item_id = Some ''0407010H'', item_name = Some ''near''\<rparr>,
                       \<lparr>item_id = Some ''0407010'', item_name = Some ''Analgesics''\<rparr>]
            else Body [])
     ''0407010H0''"
  using resolve_prefers_nine_then_seven
    [of "''0407010H0AAAMAM''"
        "\<lambda>url. if url = check_url ''0407010H0'' then RequestException ''timed out''
            else if url = check_url ''0407010''
            then Body [\<lparr>item_id = Some ''0407010H'', item_name = Some ''near''\<rparr>,
                       \<lparr>item_id = Some ''0407010'', item_name = Some ''Analgesics''\<rparr>]
            else Body []" "''0407010''"]
  by (simp add: check_url_def check_code_exists_def)

text \<open>
  C4. \<open>get_chemical_name\<close> raises exactly when the request fails, or the body is empty,
  or no item of the body has an id equal to the queried code. What it raises is always an
  \<open>Exception\<close>, which for a failed request carries the text of the underlying error.
  Otherwise it returns the name of the first item whose id equals the code, or
  \<open>Unknown chemical\<close> when that item has no name.
\<close>

theorem lookup_fails_exactly_when:
  "((\<exists>e. get_chemical_name get code = Inl e) \<longleftrightarrow>
      (\<exists>m. get (name_url code) = RequestException m) \<or>
      get (name_url code) = Body [] \<or>
      (\<exists>data. get (name_url code) = Body data \<and>
              (\<forall>item\<in>set data. item_id item \<noteq> Some code))) \<and>
   (\<forall>m. get (name_url code) = RequestException m \<longrightarrow>
        get_chemical_name get code =
          Inl (Exception (''Failed to fetch data from API: '' @ m))) \<and>
   (\<forall>e. get_chemical_name get code = Inl e \<longrightarrow> (\<exists>m. e = Exception m)) \<and>
   (\<forall>data item. get (name_url code) = Body data \<and>
        find (\<lambda>item. item_id item = Some code) data = Some item \<longrightarrow>
        get_chemical_name get code =
          Inr (case item_name item of None \<Rightarrow> ''Unknown chemical'' | Some n \<Rightarrow> n))"
proof (cases "get (name_url code)")
  case (RequestException m)
  then show ?thesis
    using get_chemical_name_request_failed [of get code m] by simp
next
  case (Body data)
  show ?thesis
  proof (cases "find (\<lambda>item. item_id item = Some code) data")
    case None
    then have none: "\<forall>item\<in>set data. item_id item \<noteq> Some code"
      by (simp add: find_None_iff)
    have "\<exists>m. get_chemical_name get code = Inl (Exception m)"
    proof (cases "data = []")
      case True
      with Body show ?thesis using get_chemical_name_empty [of get code] by simp
    next
      case False
      with Body None show ?thesis using get_chemical_name_no_match [of get code data] by simp
    qed
    then obtain m where "get_chemical_name get code = Inl (Exception m)" ..
    then show ?thesis using Body None none by simp
  next
    case (Some item)
    then have "item \<in> set data" "item_id item = Some code"
      by (auto simp: find_Some_iff)
    then have "data \<noteq> []" "\<not> (\<forall>item\<in>set data. item_id item \<noteq> Some code)" by auto
    then show ?thesis
      using Body Some get_chemical_name_match [of get code data item] by simp
  qed
qed

text \<open>
  A body with a near match, then a matching item without a name, then a matching item with
  one: the placeholder is returned. The request for another code is refused.
\<close>

theorem lookup_fails_exactly_when_witness:
  "get_chemical_name
     (\<lambda>url. if url = name_url ''0407010H0''
            then Body [\<lparr>item_id = Some ''0407010H0AA'', item_name = Some ''Paracetamol tablets''\<rparr>,
                       \<lparr>item_id = Some ''0407010H0'', item_name = None\<rparr>,
                       \<lparr>item_id = Some ''0407010H0'', item_name = Some ''Paracetamol''\<rparr>]
            else RequestException ''connection refused'')
     ''0407010H0'' = Inr ''Unknown chemical'' \<and>
   get_chemical_name
     (\<lambda>url. if url = name_url ''0407010H0''
            then Body [\<lparr>item_id = Some ''0407010H0AA'', item_name = Some ''Paracetamol tablets''\<rparr>,
                       \<lparr>item_id = Some ''0407010H0'', item_name = None\<rparr>,
                       \<lparr>item_id = Some ''0407010H0'', item_name = Some ''Paracetamol''\<rparr>]
            else RequestException ''connection refused'')
     ''0407010'' = Inl (Exception ''Failed to fetch data from API: connection refused'')"
  using lookup_fails_exactly_when
    [of "\<lambda>url. if url = name_url ''0407010H0''
            then Body [\<lparr>item_id = Some ''0407010H0AA'', item_name = Some ''Paracetamol tablets''\<rparr>,
                       \<lparr>item_id = Some ''0407010H0'', item_name = None\<rparr>,
                       \<lparr>item_id = Some ''0407010H0'', item_name = Some ''Paracetamol''\<rparr>]
            else RequestException ''connection refused''" "''0407010H0''"]
    lookup_fails_exactly_when
    [of "\<lambda>url. if url = name_url ''0407010H0''
            then Body [\<lparr>item_id = Some ''0407010H0AA'', item_name = Some ''Paracetamol tablets''\<rparr>,
                       \<lparr>item_id = Some ''0407010H0'', item_name = None\<rparr>,
                       \<lparr>item_id = Some ''0407010H0'', item_name = Some ''Paracetamol''\<rparr>]
            else RequestException ''connection refused''" "''0407010''"]
  by (simp add: name_url_def)

text \<open>
  C8. For an input whose length is not 15, \<open>extract_chemical_code\<close> raises a
  \<open>ValueError\<close> whose message ends with the decimal numeral of the actual length.
\<close>

theorem wrong_length_rejected:
  "length bnf_code \<noteq> 15 \<Longrightarrow>
   extract_chemical_code get bnf_code =
     Inl (ValueError (''BNF code must be exactly 15 characters, got '' @
                      str_nat (length bnf_code))) \<and>
   nat_of_digits (str_nat (length bnf_code)) = length bnf_code"
  by (simp add: extract_chemical_code_def nat_of_digits_str_nat)

theorem wrong_length_rejected_witness:
  "extract_chemical_code (\<lambda>url. Body []) ''0407010H0AAAMAMX'' =
     Inl (ValueError ''BNF code must be exactly 15 characters, got 16'')"
proof -
  have len: "length ''0407010H0AAAMAMX'' = 16" by simp
  have str: "str_nat 16 = ''16''" by code_simp
  show ?thesis
    using wrong_length_rejected [of "''0407010H0AAAMAMX''" "\<lambda>url. Body []"]
    unfolding len str by simp
qed

section \<open>The claims about the collectors\<close>

text \<open>
  C5. \<open>get_spending_data\<close> groups the fetched objects by their date: the entry list of a
  date holds, in the order of the response, one entry per object with that date, with the
  organization id and name of the object and with items, quantity and cost 0 where the
  object has none. An object without a date (or with an empty one) contributes to no date.
  A failed request makes the call raise an \<open>Exception\<close> carrying the text of the failure,
  and nothing is returned.
\<close>

theorem spending_grouped_by_date:
  "(\<forall>e. get (spending_url code) = RequestException e \<longrightarrow>
        get_spending_data get code =
          Inl (Exception (''Failed to fetch spending data from API: '' @ e))) \<and>
   (\<forall>data. get (spending_url code) = Body data \<longrightarrow>
      (\<exists>spending. get_spending_data get code = Inr spending \<and>
         distinct (keys spending) \<and>
         (\<forall>d. map_of spending d =
            (if d \<noteq> [] \<and> (\<exists>item\<in>set data. row_date item = Some d)
             then Some (map (\<lambda>item.
                    \<lparr>org_id = row_id item,
                     org_name = row_name item,
                     items = (case row_items item of None \<Rightarrow> 0 | Some n \<Rightarrow> n),
                     quantity = (case row_quantity item of None \<Rightarrow> 0 | Some q \<Rightarrow> q),
                     actual_cost = (case row_actual_cost item of None \<Rightarrow> 0 | Some c \<Rightarrow> c)\<rparr>)
                  (filter (\<lambda>item. row_date item = Some d) data))
             else None))))"
proof -
  have entry: "entry_of = (\<lambda>item.
                    \<lparr>org_id = row_id item,
                     org_name = row_name item,
                     items = (case row_items item of None \<Rightarrow> 0 | Some n \<Rightarrow> n),
                     quantity = (case row_quantity item of None \<Rightarrow> 0 | Some q \<Rightarrow> q),
                     actual_cost = (case row_actual_cost item of None \<Rightarrow> 0 | Some c \<Rightarrow> c)\<rparr>)"
    by (rule ext) (simp add: entry_of_def)
  have look: "map_of (group_loop data []) d =
      (if d \<noteq> [] \<and> (\<exists>item\<in>set data. row_date item = Some d)
       then Some (map entry_of (filter (\<lambda>item. row_date item = Some d) data))
       else None)" for data :: "'a spending_item list" and d
    by (simp add: map_of_group_loop dict_get_def filter_empty_conv)
  have dist: "distinct (keys (group_loop data []))" for data :: "'a spending_item list"
    by (rule distinct_group_loop) (simp add: keys_def)
  show ?thesis
    using look dist unfolding entry [symmetric]
    by (simp add: get_spending_data_def)
qed

text \<open>
  Four objects: two for 2024-02-01, one without a date, and one for 2024-01-01 that has no
  name and no numbers.
\<close>

theorem spending_grouped_by_date_witness:
  "(\<exists>spending.
      get_spending_data
        (\<lambda>url. Body
           [\<lparr>row_id = Some ''QA'', row_date = Some ''2024-02-01'', row_name = Some ''A'',
              row_items = Some 5, row_quantity = Some (7::int), row_actual_cost = Some 3\<rparr>,
            \<lparr>row_id = Some ''QB'', row_date = None, row_name = Some ''B'',
              row_items = Some 9, row_quantity = Some 1, row_actual_cost = Some 1\<rparr>,
            \<lparr>row_id = Some ''QC'', row_date = Some ''2024-01-01'', row_name = None,
              row_items = None, row_quantity = None, row_actual_cost = None\<rparr>,
            \<lparr>row_id = Some ''QD'', row_date = Some ''2024-02-01'', row_name = Some ''D'',
              row_items = Some 2, row_quantity = Some 4, row_actual_cost = Some 6\<rparr>])
        ''0407010H0'' = Inr spending \<and>
      map_of spending ''2024-02-01'' =
        Some [\<lparr>org_id = Some ''QA'', org_name = Some ''A'', items = 5, quantity = 7, actual_cost = 3\<rparr>,
              \<lparr>org_id = Some ''QD'', org_name = Some ''D'', items = 2, quantity = 4, actual_cost = 6\<rparr>] \<and>
      map_of spending ''2024-01-01'' =
        Some [\<lparr>org_id = Some ''QC'', org_name = None, items = 0, quantity = 0, actual_cost = 0\<rparr>] \<and>
      map_of spending ''2024-03-01'' = None) \<and>
   get_spending_data (\<lambda>url. RequestException ''timed out'' :: int spending_item list fetched)
     ''0407010H0'' =
     Inl (Exception ''Failed to fetch spending data from API: timed out'')"
proof -
  let ?data = "[\<lparr>row_id = Some ''QA'', row_date = Some ''2024-02-01'', row_name = Some ''A'',
              row_items = Some 5, row_quantity = Some (7::int), row_actual_cost = Some 3\<rparr>,
            \<lparr>row_id = Some ''QB'', row_date = None, row_name = Some ''B'',
              row_items = Some 9, row_quantity = Some 1, row_actual_cost = Some 1\<rparr>,
            \<lparr>row_id = Some ''QC'', row_date = Some ''2024-01-01'', row_name = None,
              row_items = None, row_quantity = None, row_actual_cost = None\<rparr>,
            \<lparr>row_id = Some ''QD'', row_date = Some ''2024-02-01'', row_name = Some ''D'',
              row_items = Some 2, row_quantity = Some 4, row_actual_cost = Some 6\<rparr>]"
  from spending_grouped_by_date [of "\<lambda>url. Body ?data" "''0407010H0''"]
  obtain spending where ok: "get_spending_data (\<lambda>url. Body ?data) ''0407010H0'' = Inr spending"
    and look: "\<And>d. map_of spending d =
            (if d \<noteq> [] \<and> (\<exists>item\<in>set ?data. row_date item = Some d)
             then Some (map (\<lambda>item.
                    \<lparr>org_id = row_id item,
                     org_name = row_name item,
                     items = (case row_items item of None \<Rightarrow> 0 | Some n \<Rightarrow> n),
                     quantity = (case row_quantity item of None \<Rightarrow> 0 | Some q \<Rightarrow> q),
                     actual_cost = (case row_actual_cost item of None \<Rightarrow> 0 | Some c \<Rightarrow> c)\<rparr>)
                  (filter (\<lambda>item. row_date item = Some d) ?data))
             else None)"
    by blast
  have "map_of spending ''2024-02-01'' =
        Some [\<lparr>org_id = Some ''QA'', org_name = Some ''A'', items = 5, quantity = 7, actual_cost = 3\<rparr>,
              \<lparr>org_id = Some ''QD'', org_name = Some ''D'', items = 2, quantity = 4, actual_cost = 6\<rparr>]"
    unfolding look [of "''2024-02-01''"] by simp
  moreover have "map_of spending ''2024-01-01'' =
        Some [\<lparr>org_id = Some ''QC'', org_name = None, items = 0, quantity = 0, actual_cost = 0\<rparr>]"
    unfolding look [of "''2024-01-01''"] by simp
  moreover have "map_of spending ''2024-03-01'' = None"
    unfolding look [of "''2024-03-01''"] by simp
  moreover have "get_spending_data
       (\<lambda>url. RequestException ''timed out'' :: int spending_item list fetched) ''0407010H0'' =
     Inl (Exception ''Failed to fetch spending data from API: timed out'')"
    using spending_grouped_by_date
      [of "\<lambda>url. RequestException ''timed out'' :: int spending_item list fetched" "''0407010H0''"]
    by simp
  ultimately show ?thesis using ok by blast
qed

text \<open>
  C6. Whatever the order in which the set of months is visited, \<open>get_icb_list_sizes\<close>
  sends one request per distinct month (the first seven characters) of the requested dates
  and no other, to the \<open>org_details\<close> endpoint for the list sizes of the ICBs, with the
  first day of the month, the month followed by \<open>-01\<close>, as the date of the query. When
  every requested date has at least its seven characters of year and month, a date whose
  month's request succeeded has, for each organization of \<open>org_ids\<close>, the list size that
  the response gives for it (and nothing for an organization that is not in \<open>org_ids\<close>);
  two requested dates of the same month get the same populations.
\<close>

theorem one_query_per_month:
  assumes "iteration_order order"
  shows "\<exists>list_sizes io' months.
     get_icb_list_sizes order get org_ids dates io = (list_sizes, io') \<and>
     distinct months \<and> set months = take 7 ` set dates \<and>
     requested io' = requested io @ map (\<lambda>year_month.
          ''https://openprescribing.net/api/1.0/org_details/?format=json&org_type=icb&keys=total_list_size&date='' @
          year_month @ ''-01'') months \<and>
     distinct (map (\<lambda>year_month.
          ''https://openprescribing.net/api/1.0/org_details/?format=json&org_type=icb&keys=total_list_size&date='' @
          year_month @ ''-01'') months) \<and>
     ((\<forall>d\<in>set dates. 7 \<le> length d) \<longrightarrow>
        (\<forall>d\<in>set dates. \<forall>data. get (''https://openprescribing.net/api/1.0/org_details/?format=json&org_type=icb&keys=total_list_size&date='' @
          take 7 d @ ''-01'') = Body data \<longrightarrow>
           (\<forall>org. population list_sizes d org =
                   (if org \<in> org_ids then recorded_size data org else None))) \<and>
        (\<forall>d1\<in>set dates. \<forall>d2\<in>set dates. take 7 d1 = take 7 d2 \<longrightarrow>
           (\<forall>org. population list_sizes d1 org = population list_sizes d2 org)))"
proof -
  have url: "list_size_url =
      (\<lambda>year_month.
          ''https://openprescribing.net/api/1.0/org_details/?format=json&org_type=icb&keys=total_list_size&date='' @
          year_month @ ''-01'')"
    by (rule ext) (simp add: list_size_url_def)
  have main: "\<exists>list_sizes io' months.
       get_icb_list_sizes order get org_ids dates io = (list_sizes, io') \<and>
       distinct months \<and> set months = take 7 ` set dates \<and>
       requested io' = requested io @ map list_size_url months \<and>
       distinct (map list_size_url months) \<and>
       ((\<forall>d\<in>set dates. 7 \<le> length d) \<longrightarrow>
          (\<forall>d\<in>set dates. \<forall>data. get (list_size_url (take 7 d)) = Body data \<longrightarrow>
             (\<forall>org. population list_sizes d org =
                     (if org \<in> org_ids then recorded_size data org else None))) \<and>
          (\<forall>d1\<in>set dates. \<forall>d2\<in>set dates. take 7 d1 = take 7 d2 \<longrightarrow>
             (\<forall>org. population list_sizes d1 org = population list_sizes d2 org)))"
  proof -
    let ?months = "order (unique_months_loop dates [])"
    let ?res = "months_loop get org_ids dates ?months ([], io)"
    have run: "get_icb_list_sizes order get org_ids dates io = (fst ?res, snd ?res)"
      by (simp add: get_icb_list_sizes_def)
    have dist: "distinct ?months" and mem: "set ?months = take 7 ` set dates"
      using months_order [OF assms, of dates] by simp_all
    have req: "requested (snd ?res) = requested io @ map list_size_url ?months"
      by (rule months_loop_requested)
    have urls: "distinct (map list_size_url ?months)"
      using dist by (simp add: distinct_map inj_on_def list_size_url_inj)
    have pop: "population (fst ?res) d org =
        (if org \<in> org_ids
         then (case get (list_size_url (take 7 d)) of
                 RequestException e \<Rightarrow> None
               | Body data \<Rightarrow> recorded_size data org)
         else None)"
      if len: "\<forall>d\<in>set dates. 7 \<le> length d" and d: "d \<in> set dates" for d org
    proof -
      have "take 7 d \<in> set ?months" using mem d by simp
      then show ?thesis
        using d population_months_loop [OF months_of_dates [OF assms len], of get org_ids dates "[]" io d org]
        by (simp add: population_Nil split: fetched.split option.split)
    qed
    have part2: "\<forall>d\<in>set dates. \<forall>data. get (list_size_url (take 7 d)) = Body data \<longrightarrow>
             (\<forall>org. population (fst ?res) d org =
                     (if org \<in> org_ids then recorded_size data org else None))"
      if len: "\<forall>d\<in>set dates. 7 \<le> length d"
      using pop [OF len] by simp
    have part3: "\<forall>d1\<in>set dates. \<forall>d2\<in>set dates. take 7 d1 = take 7 d2 \<longrightarrow>
             (\<forall>org. population (fst ?res) d1 org = population (fst ?res) d2 org)"
      if len: "\<forall>d\<in>set dates. 7 \<le> length d"
      using pop [OF len] by simp
    show ?thesis
      using run dist mem req urls part2 part3 by blast
  qed
  show ?thesis
    using main unfolding url .
qed

text \<open>
  The dates 2023-05-15 and 2023-05-20 share the one request dated 2023-05-01, whose
  response also names an organization that was not asked for and one without a list size;
  the request dated 2023-06-01 fails.
\<close>

theorem one_query_per_month_witness:
  "iteration_order (rev :: string list \<Rightarrow> string list) \<and>
   (\<exists>list_sizes io'.
      get_icb_list_sizes rev
        (\<lambda>url. if url =
              ''https://openprescribing.net/api/1.0/org_details/?format=json&org_type=icb&keys=total_list_size&date=2023-05-01''
            then Body [\<lparr>row_id = Some ''QA'', total_list_size = Some 100\<rparr>,
                       \<lparr>row_id = Some ''QZ'', total_list_size = Some 5\<rparr>,
                       \<lparr>row_id = Some ''QB'', total_list_size = None\<rparr>]
            else RequestException ''503 Server Error'')
        {Some ''QA'', Some ''QB''} [''2023-05-15'', ''2023-06-01'', ''2023-05-20'']
        \<lparr>requested = [], stdout = [], stderr = []\<rparr> = (list_sizes, io') \<and>
      length (requested io') = 2 \<and>
      set (requested io') =
        {''https://openprescribing.net/api/1.0/org_details/?format=json&org_type=icb&keys=total_list_size&date=2023-05-01'',
         ''https://openprescribing.net/api/1.0/org_details/?format=json&org_type=icb&keys=total_list_size&date=2023-06-01''} \<and>
      population list_sizes ''2023-05-15'' (Some ''QA'') = Some 100 \<and>
      population list_sizes ''2023-05-20'' (Some ''QA'') = Some 100 \<and>
      population list_sizes ''2023-05-15'' (Some ''QB'') = Some 0 \<and>
      population list_sizes ''2023-05-15'' (Some ''QZ'') = None)"
proof -
  let ?get = "\<lambda>url. if url =
              ''https://openprescribing.net/api/1.0/org_details/?format=json&org_type=icb&keys=total_list_size&date=2023-05-01''
            then Body [\<lparr>row_id = Some ''QA'', total_list_size = Some 100\<rparr>,
                       \<lparr>row_id = Some ''QZ'', total_list_size = Some 5\<rparr>,
                       \<lparr>row_id = Some ''QB'', total_list_size = None\<rparr>]
            else RequestException ''503 Server Error''"
  let ?data = "[\<lparr>row_id = Some ''QA'', total_list_size = Some 100\<rparr>,
                       \<lparr>row_id = Some ''QZ'', total_list_size = Some 5\<rparr>,
                       \<lparr>row_id = Some ''QB'', total_list_size = None\<rparr>]"
  let ?orgs = "{Some ''QA'', Some ''QB''}"
  let ?dates = "[''2023-05-15'', ''2023-06-01'', ''2023-05-20'']"
  let ?io = "\<lparr>requested = [], stdout = [], stderr = []\<rparr>"
  let ?url = "\<lambda>year_month.
          ''https://openprescribing.net/api/1.0/org_details/?format=json&org_type=icb&keys=total_list_size&date='' @
          year_month @ ''-01''"
  have ord: "iteration_order (rev :: string list \<Rightarrow> string list)"
    by (simp add: iteration_order_def)
  from one_query_per_month [OF ord, of ?get ?orgs ?dates ?io]
  obtain list_sizes io' months where
    run: "get_icb_list_sizes rev ?get ?orgs ?dates ?io = (list_sizes, io')" and
    dist: "distinct months" and mem: "set months = take 7 ` set ?dates" and
    req: "requested io' = requested ?io @ map ?url months" and
    rest: "(\<forall>d\<in>set ?dates. 7 \<le> length d) \<longrightarrow>
        (\<forall>d\<in>set ?dates. \<forall>data. ?get (?url (take 7 d)) = Body data \<longrightarrow>
           (\<forall>org. population list_sizes d org =
                   (if org \<in> ?orgs then recorded_size data org else None))) \<and>
        (\<forall>d1\<in>set ?dates. \<forall>d2\<in>set ?dates. take 7 d1 = take 7 d2 \<longrightarrow>
           (\<forall>org. population list_sizes d1 org = population list_sizes d2 org))"
    by blast
  have "\<forall>d\<in>set ?dates. 7 \<le> length d" by simp
  with rest have look: "\<And>d data org. d \<in> set ?dates \<Longrightarrow>
      ?get (?url (take 7 d)) = Body data \<Longrightarrow>
      population list_sizes d org = (if org \<in> ?orgs then recorded_size data org else None)"
    by blast
  have may: "?get (?url ''2023-05'') = Body ?data" by simp
  have a: "population list_sizes ''2023-05-15'' (Some ''QA'') = Some 100"
    using look [of "''2023-05-15''" ?data "Some ''QA''"] may by (simp add: recorded_size_def)
  have b: "population list_sizes ''2023-05-20'' (Some ''QA'') = Some 100"
    using look [of "''2023-05-20''" ?data "Some ''QA''"] may by (simp add: recorded_size_def)
  have c: "population list_sizes ''2023-05-15'' (Some ''QB'') = Some 0"
    using look [of "''2023-05-15''" ?data "Some ''QB''"] may by (simp add: recorded_size_def)
  have d: "population list_sizes ''2023-05-15'' (Some ''QZ'') = None"
    using look [of "''2023-05-15''" ?data "Some ''QZ''"] may by simp
  have months: "set months = {''2023-05'', ''2023-06''}"
    using mem by auto
  have "length months = card (set months)"
    using dist by (simp add: distinct_card)
  then have n: "length (requested io') = 2"
    using req months by simp
  have s: "set (requested io') =
        {''https://openprescribing.net/api/1.0/org_details/?format=json&org_type=icb&keys=total_list_size&date=2023-05-01'',
         ''https://openprescribing.net/api/1.0/org_details/?format=json&org_type=icb&keys=total_list_size&date=2023-06-01''}"
    using req months by simp
  show ?thesis
    using ord run n s a b c d by blast
qed

text \<open>
  C7. When the request of a month raises a \<open>RequestException\<close>, \<open>get_icb_list_sizes\<close>
  still returns: the warning for that month is printed to standard error, standard output
  is left as it was, no requested date of that month is a key of the returned mapping, and
  the months of all requested dates are still requested, the dates of the months that
  succeed getting their list sizes. The dates are taken to have at least their seven
  characters of year and month.
\<close>

theorem failed_month_is_skipped:
  assumes "iteration_order order"
    and "\<forall>d\<in>set dates. 7 \<le> length d"
    and "failed \<in> set dates"
    and "get (list_size_url (take 7 failed)) = RequestException e"
  shows "\<exists>list_sizes io'.
     get_icb_list_sizes order get org_ids dates io = (list_sizes, io') \<and>
     (''Warning: Failed to fetch list sizes for '' @ take 7 failed @ '': '' @ e)
       \<in> set (stderr io') \<and>
     stdout io' = stdout io \<and>
     (\<forall>d\<in>set dates. take 7 d = take 7 failed \<longrightarrow> map_of list_sizes d = None) \<and>
     (\<forall>d\<in>set dates. list_size_url (take 7 d) \<in> set (requested io')) \<and>
     (\<forall>d\<in>set dates. \<forall>data. get (list_size_url (take 7 d)) = Body data \<longrightarrow>
        (\<forall>org\<in>org_ids. population list_sizes d org = recorded_size data org))"
proof -
  let ?months = "order (unique_months_loop dates [])"
  let ?res = "months_loop get org_ids dates ?months ([], io)"
  have run: "get_icb_list_sizes order get org_ids dates io = (fst ?res, snd ?res)"
    by (simp add: get_icb_list_sizes_def)
  have mem: "set ?months = take 7 ` set dates"
    using months_order [OF assms(1), of dates] by simp
  have len: "\<forall>m\<in>set ?months. length m = 7"
    by (rule months_of_dates [OF assms(1,2)])
  have "take 7 failed \<in> set ?months" using mem assms(3) by simp
  then have warn: "(''Warning: Failed to fetch list sizes for '' @ take 7 failed @ '': '' @ e)
       \<in> set (stderr (snd ?res))"
    unfolding months_loop_stderr using assms(4) by (auto intro!: bexI [of _ "take 7 failed"])
  have out: "stdout (snd ?res) = stdout io"
    by (rule months_loop_stdout)
  have absent: "\<forall>d\<in>set dates. take 7 d = take 7 failed \<longrightarrow> map_of (fst ?res) d = None"
  proof (intro ballI impI)
    fix d assume "d \<in> set dates" and same: "take 7 d = take 7 failed"
    from assms(4) same have "get (list_size_url (take 7 d)) = RequestException e" by simp
    then show "map_of (fst ?res) d = None"
      using len by (intro map_of_months_loop_None) simp_all
  qed
  have asked: "\<forall>d\<in>set dates. list_size_url (take 7 d) \<in> set (requested (snd ?res))"
    unfolding months_loop_requested using mem by simp
  have others: "\<forall>d\<in>set dates. \<forall>data. get (list_size_url (take 7 d)) = Body data \<longrightarrow>
        (\<forall>org\<in>org_ids. population (fst ?res) d org = recorded_size data org)"
  proof (intro ballI allI impI)
    fix d data org
    assume d: "d \<in> set dates" and body: "get (list_size_url (take 7 d)) = Body data"
      and org: "org \<in> org_ids"
    have "take 7 d \<in> set ?months" using mem d by simp
    then show "population (fst ?res) d org = recorded_size data org"
      using d body org population_months_loop [OF len, of get org_ids dates "[]" io d org]
      by (simp add: population_Nil split: option.split)
  qed
  show ?thesis
    using run warn out absent asked others by blast
qed

theorem failed_month_is_skipped_witness:
  "\<exists>list_sizes io'.
      get_icb_list_sizes rev
        (\<lambda>url. if url = list_size_url ''2023-05''
            then Body [\<lparr>row_id = Some ''QA'', total_list_size = Some 100\<rparr>,
                       \<lparr>row_id = Some ''QZ'', total_list_size = Some 5\<rparr>,
                       \<lparr>row_id = Some ''QB'', total_list_size = None\<rparr>]
            else RequestException ''503 Server Error'')
        {Some ''QA'', Some ''QB''} [''2023-05-15'', ''2023-06-01'', ''2023-05-20'']
        \<lparr>requested = [], stdout = [], stderr = []\<rparr> = (list_sizes, io') \<and>
      ''Warning: Failed to fetch list sizes for 2023-06: 503 Server Error'' \<in> set (stderr io') \<and>
      stdout io' = [] \<and>
      map_of list_sizes ''2023-06-01'' = None \<and>
      list_size_url ''2023-05'' \<in> set (requested io') \<and>
      population list_sizes ''2023-05-20'' (Some ''QA'') = Some 100"
proof -
  let ?get = "\<lambda>url. if url = list_size_url ''2023-05''
            then Body [\<lparr>row_id = Some ''QA'', total_list_size = Some 100\<rparr>,
                       \<lparr>row_id = Some ''QZ'', total_list_size = Some 5\<rparr>,
                       \<lparr>row_id = Some ''QB'', total_list_size = None\<rparr>]
            else RequestException ''503 Server Error''"
  let ?data = "[\<lparr>row_id = Some ''QA'', total_list_size = Some 100\<rparr>,
                       \<lparr>row_id = Some ''QZ'', total_list_size = Some 5\<rparr>,
                       \<lparr>row_id = Some ''QB'', total_list_size = None\<rparr>]"
  let ?orgs = "{Some ''QA'', Some ''QB''}"
  let ?dates = "[''2023-05-15'', ''2023-06-01'', ''2023-05-20'']"
  let ?io = "\<lparr>requested = [], stdout = [], stderr = []\<rparr>"
  have ord: "iteration_order (rev :: string list \<Rightarrow> string list)"
    by (simp add: iteration_order_def)
  have len: "\<forall>d\<in>set ?dates. 7 \<le> length d" by simp
  have mem: "''2023-06-01'' \<in> set ?dates" by simp
  have fails: "?get (list_size_url (take 7 ''2023-06-01'')) = RequestException ''503 Server Error''"
    by (simp add: list_size_url_def)
  from failed_month_is_skipped
    [where order = rev and dates = ?dates and failed = "''2023-06-01''" and get = ?get
       and e = "''503 Server Error''" and org_ids = ?orgs and io = ?io,
     OF ord len mem fails]
  obtain list_sizes io' where
    run: "get_icb_list_sizes rev ?get ?orgs ?dates ?io = (list_sizes, io')" and
    warn: "(''Warning: Failed to fetch list sizes for '' @ take 7 ''2023-06-01'' @ '': '' @
            ''503 Server Error'') \<in> set (stderr io')" and
    out: "stdout io' = stdout ?io" and
    absent: "\<forall>d\<in>set ?dates. take 7 d = take 7 ''2023-06-01'' \<longrightarrow> map_of list_sizes d = None" and
    asked: "\<forall>d\<in>set ?dates. list_size_url (take 7 d) \<in> set (requested io')" and
    others: "\<forall>d\<in>set ?dates. \<forall>data. ?get (list_size_url (take 7 d)) = Body data \<longrightarrow>
        (\<forall>org\<in>?orgs. population list_sizes d org = recorded_size data org)"
    by blast
  have w: "''Warning: Failed to fetch list sizes for 2023-06: 503 Server Error'' \<in> set (stderr io')"
    using warn by simp
  have o: "stdout io' = []" using out by simp
  have a: "map_of list_sizes ''2023-06-01'' = None" using absent by simp
  have q: "list_size_url ''2023-05'' \<in> set (requested io')" using asked by simp
  have may: "?get (list_size_url (take 7 ''2023-05-20'')) = Body ?data" by simp
  have "''2023-05-20'' \<in> set ?dates" by simp
  with others may have "\<forall>org\<in>?orgs. population list_sizes ''2023-05-20'' org = recorded_size ?data org"
    by blast
  then have p: "population list_sizes ''2023-05-20'' (Some ''QA'') = Some 100"
    by (simp add: recorded_size_def)
  show ?thesis
    using run w o a q p by blast
qed

end
